theory Spec2Isabelle
  imports Complex_Main
begin

section \<open>Solana payment verification and crediting (server/services/solana)\<close>

text \<open>
  The embedding follows the service module that holds \<open>verifyAndCreditTransaction\<close>,
  \<open>verifyAndCreateSubscription\<close>, \<open>getSolUsdPrice\<close> and \<open>getUserTransactions\<close>.
  The SQLite tables are lists of rows (in insertion order), every SQL statement is a
  function on those lists, and a call returns its result together with the database
  it leaves behind. What the module reads from outside is a parameter: the treasury
  wallet of the process environment, the answers of the chain RPC node, the clock, the
  identifiers drawn by \<open>crypto.randomUUID\<close> and the outcome of the price request.

  Conventions.
  \<^item> An instant is an integer (milliseconds since the epoch). Every read of the clock in
    a call is a value of its own: \<open>datetime('now')\<close> of each statement, \<open>new Date()\<close>
    and \<open>Date.now()\<close>.
  \<^item> Lamport amounts and balances are integers. JavaScript numbers are modelled exactly:
    the products with \<open>0.01\<close>, the division by \<open>LAMPORTS_PER_SOL\<close> and the price are
    real numbers, without the rounding of IEEE doubles.
  \<^item> Every statement inside the \<open>try\<close> block that writes (and the one that reads the
    bonus) either takes effect or throws without effect, as the environment decides;
    the \<open>catch\<close> block returns the failure and undoes nothing. The reads before the
    \<open>try\<close> block are taken to answer.
\<close>

subsection \<open>Tables\<close>

type_synonym timestamp = int

text \<open>Row of \<open>solana_transactions\<close> (credit purchases).\<close>

record solana_transaction =
  st_id :: string
  st_user_id :: string
  st_wallet_address :: string
  st_transaction_signature :: string
  st_amount_lamports :: int
  st_amount_sol :: real
  st_credits_purchased :: int
  st_status :: string
  st_network :: string
  st_verified_at :: "timestamp option"
  st_created_at :: timestamp

text \<open>Row of \<open>solana_subscription_transactions\<close> (subscription purchases).\<close>

record solana_subscription_transaction =
  sst_id :: string
  sst_user_id :: string
  sst_product_id :: string
  sst_wallet_address :: string
  sst_transaction_signature :: string
  sst_amount_lamports :: int
  sst_amount_sol :: real
  sst_status :: string
  sst_network :: string
  sst_verified_at :: "timestamp option"
  sst_subscription_id :: "string option"
  sst_created_at :: timestamp

text \<open>
  The time columns of \<open>user_subscriptions\<close> hold TEXT in two formats: what
  \<open>toISOString()\<close> writes (\<open>YYYY-MM-DDTHH:MM:SS.sssZ\<close>) and what
  \<open>datetime('now')\<close> writes (\<open>YYYY-MM-DD HH:MM:SS\<close>, the seconds cut off), and
  SQLite compares them byte by byte. A text is modelled by its format and the instant
  it denotes. With years from 0000 to 9999 the bytewise order is: the date first; on
  the same date a \<open>datetime\<close> text, with a space in the eleventh place, is less than
  an ISO text, with \<open>T\<close> there; in the same format, the time of day.
\<close>

datatype text_format = SqliteText | IsoText

datatype stamp = Stamp (stamp_format: text_format) (instant: int)

definition ms_per_day :: int where
  "ms_per_day = 86400000"

definition text_less :: "stamp \<Rightarrow> stamp \<Rightarrow> bool" where
  "text_less a b =
     (instant a div ms_per_day < instant b div ms_per_day \<or>
      (instant a div ms_per_day = instant b div ms_per_day \<and>
       ((stamp_format a = SqliteText \<and> stamp_format b = IsoText) \<or>
        (stamp_format a = stamp_format b \<and>
         instant a mod ms_per_day < instant b mod ms_per_day))))"

text \<open>\<open>datetime('now')\<close> and \<open>new Date(t).toISOString()\<close> at the instant \<open>t\<close>.\<close>

definition datetime :: "int \<Rightarrow> stamp" where
  "datetime t = Stamp SqliteText (t - t mod 1000)"

definition toISOString :: "int \<Rightarrow> stamp" where
  "toISOString t = Stamp IsoText t"

text \<open>Row of \<open>user_subscriptions\<close>; \<open>ends_at\<close> may be \<open>NULL\<close>.\<close>

record user_subscription =
  us_id :: string
  us_user_id :: string
  us_product_id :: string
  us_starts_at :: stamp
  us_ends_at :: "stamp option"
  us_status :: string
  us_current_period_start :: "stamp option"
  us_current_period_end :: "stamp option"

text \<open>The column of \<open>subscription_products\<close> that the verification reads.\<close>

record subscription_product =
  sp_id :: string
  sp_bonus_credits :: int

text \<open>Entry of the credit ledger that \<open>addCredits\<close> appends to.\<close>

record credit_entry =
  ce_user_id :: string
  ce_amount :: int
  ce_type :: string
  ce_description :: string

text \<open>
  Row of \<open>revenue_events\<close>. \<open>amount_cents\<close> is \<open>None\<close> when the number bound to
  it is \<open>NaN\<close>. The description interpolates the number \<open>amountSol\<close> into a fixed
  text; the row keeps that number.
\<close>

record revenue_event =
  re_id :: string
  re_user_id :: string
  re_event_type :: string
  re_amount_cents :: "int option"
  re_description_sol :: real

record db =
  solana_transactions :: "solana_transaction list"
  solana_subscription_transactions :: "solana_subscription_transaction list"
  user_subscriptions :: "user_subscription list"
  subscription_products :: "subscription_product list"
  credit_ledger :: "credit_entry list"
  revenue_events :: "revenue_event list"

subsection \<open>Outside world\<close>

text \<open>A thrown value: an \<open>Error\<close> with its message, or any other value.\<close>

datatype exn = Error string | NonError

text \<open>
  The transaction record of the RPC node, as far as the verification reads it:
  \<open>meta\<close> (nullable) with \<open>err\<close>, \<open>preBalances\<close>, \<open>postBalances\<close>, and the message,
  which carries \<open>staticAccountKeys\<close> (versioned) or \<open>accountKeys\<close> (legacy). Account
  keys are held in their base58 form.
\<close>

record tx_meta =
  tm_err :: "string option"
  preBalances :: "int list"
  postBalances :: "int list"

datatype message = Versioned "string list" | Legacy "string list"

record transaction_response =
  meta :: "tx_meta option"
  tx_message :: message

datatype commitment = Confirmed | Finalized

text \<open>
  The RPC connection. Each request of polling iteration \<open>attempt\<close> either throws or
  answers; \<open>getSignatureStatus\<close> answers \<open>status.value\<close> (nullable) reduced to its
  \<open>err\<close> field (nullable).
\<close>

record chain =
  getSignatureStatus :: "string \<Rightarrow> nat \<Rightarrow> exn + string option option"
  getTransaction :: "string \<Rightarrow> commitment \<Rightarrow> nat \<Rightarrow> exn + transaction_response option"

text \<open>A JSON value, as \<open>res.json()\<close> delivers it; an object keeps its members in order.\<close>

datatype json =
    JNull
  | JBool bool
  | JNumber real
  | JString string
  | JArray "json list"
  | JObject "(string \<times> json) list"

text \<open>
  The process: \<open>SOLANA_TREASURY_WALLET\<close> (empty when unset), the library
  constructor \<open>new PublicKey(s).toBase58()\<close>, which throws on a string that is no
  public key, and what the runtime makes of a value that is not a number when it is
  multiplied (\<open>None\<close> is \<open>NaN\<close>).
\<close>

record config =
  SOLANA_TREASURY_WALLET :: string
  PublicKey :: "string \<Rightarrow> exn + string"
  ToNumber_other :: "json \<Rightarrow> real option"

text \<open>
  The outcome of the price request: \<open>fetch\<close> rejects (network fault, timeout),
  \<open>res.json()\<close> rejects (malformed body), or a JSON value arrives.
\<close>

datatype fetch_outcome = FetchRejects exn | JsonRejects exn | Body json

text \<open>
  The statements inside the \<open>try\<close> blocks that touch the database, in the order of
  the code: of \<open>verifyAndCreditTransaction\<close> the update of the intent, \<open>addCredits\<close>
  and the revenue event; of \<open>verifyAndCreateSubscription\<close> the update that ends the
  subscriptions, the insertion of the new one, the read of the bonus, \<open>addCredits\<close>
  for the bonus, the update of the intent and the revenue event.
\<close>

datatype stmt =
    UpdateTransaction
  | AddCredits
  | InsertRevenueEvent
  | EndSubscriptions
  | InsertSubscription
  | SelectBonusCredits
  | AddBonusCredits
  | UpdateSubscriptionTransaction

text \<open>
  What one verification call reads from outside: the chain; the clock, once for the
  \<open>datetime('now')\<close> of the update that completes the intent (\<open>now\<close>), once for the
  \<open>datetime('now')\<close> of the update that ends the subscriptions, once for
  \<open>new Date()\<close> and once for \<open>Date.now()\<close>; the identifiers drawn; the outcome of
  the price request; and for each statement whether it throws, and what.
\<close>

record env =
  rpc :: chain
  now :: timestamp
  clock_end_subscriptions :: timestamp
  clock_new_Date :: timestamp
  clock_Date_now :: timestamp
  uuid_subscription :: string
  uuid_revenue :: string
  price_fetch :: fetch_outcome
  throws :: "stmt \<Rightarrow> exn option"

subsection \<open>Results\<close>

text \<open>
  The failures of a verification call, named as in the error taxonomy, each standing
  for the message the code returns:
  \<^item> \<open>NotConfigured\<close>: "Solana payments not configured";
  \<^item> \<open>NotFound\<close>: "Payment not found";
  \<^item> \<open>AlreadyProcessed\<close>: "Payment already processed";
  \<^item> \<open>ReplayDetected\<close>: "Transaction signature already used";
  \<^item> \<open>OnChainFailure\<close>: "Transaction failed on chain";
  \<^item> \<open>NotConfirmed\<close>: "Transaction not found or not confirmed. Please wait and try again.";
  \<^item> \<open>RecipientMismatch\<close>: "Treasury wallet not found in transaction";
  \<^item> \<open>AmountMismatch expected received\<close>: "Insufficient amount received. Expected ... lamports, got ...";
  \<^item> \<open>InternalError m\<close>: the message of the \<open>catch\<close> block.
\<close>

datatype verify_error =
    NotConfigured
  | NotFound
  | AlreadyProcessed
  | ReplayDetected
  | OnChainFailure
  | NotConfirmed
  | RecipientMismatch
  | AmountMismatch int int
  | InternalError string

text \<open>The \<open>catch\<close> block of both verification functions.\<close>

definition caught :: "exn \<Rightarrow> verify_error" where
  "caught e = InternalError (case e of Error m \<Rightarrow> m | NonError \<Rightarrow> ''Failed to verify transaction'')"

subsection \<open>Configuration and price oracle\<close>

definition isSolanaConfigured :: "config \<Rightarrow> bool" where
  "isSolanaConfigured cfg = (SOLANA_TREASURY_WALLET cfg \<noteq> [])"

definition LAMPORTS_PER_SOL :: real where
  "LAMPORTS_PER_SOL = 1000000000"

text \<open>
  Reading the member \<open>key\<close> of a value that is not \<open>null\<close>, for the keys
  \<open>solana\<close> and \<open>usd\<close>: the member of an object (the last one of that name), and
  \<open>undefined\<close>, here \<open>None\<close>, of anything else.
\<close>

fun get_member :: "json \<Rightarrow> string \<Rightarrow> json option" where
  "get_member (JObject members) key = map_of (rev members) key"
| "get_member v key = None"

text \<open>The values that \<open>||\<close> keeps.\<close>

fun truthy :: "json \<Rightarrow> bool" where
  "truthy JNull = False"
| "truthy (JBool b) = b"
| "truthy (JNumber x) = (x \<noteq> 0)"
| "truthy (JString s) = (s \<noteq> [])"
| "truthy (JArray vs) = True"
| "truthy (JObject members) = True"

text \<open>\<open>data.solana?.usd\<close>: reading \<open>solana\<close> of \<open>null\<close> throws a \<open>TypeError\<close>.\<close>

definition solana_usd :: "json \<Rightarrow> exn + json option" where
  "solana_usd data =
     (if data = JNull then Inl (Error ''null is not an object'')
      else
        (case get_member data ''solana'' of
           None \<Rightarrow> Inr None
         | Some solana \<Rightarrow> if solana = JNull then Inr None else Inr (get_member solana ''usd'')))"

text \<open>
  The \<open>try\<close> block of \<open>getSolUsdPrice\<close>: either await may reject, and
  \<open>data.solana?.usd || 250\<close> returns the \<open>usd\<close> member when it is truthy, whatever
  its type, and \<open>250\<close> otherwise.
\<close>

definition getSolUsdPrice_try :: "fetch_outcome \<Rightarrow> exn + json" where
  "getSolUsdPrice_try outcome =
     (case outcome of
        FetchRejects e \<Rightarrow> Inl e
      | JsonRejects e \<Rightarrow> Inl e
      | Body data \<Rightarrow>
          (case solana_usd data of
             Inl e \<Rightarrow> Inl e
           | Inr None \<Rightarrow> Inr (JNumber 250)
           | Inr (Some usd) \<Rightarrow> Inr (if truthy usd then usd else JNumber 250)))"

text \<open>The function with its \<open>catch\<close> block.\<close>

definition getSolUsdPrice :: "fetch_outcome \<Rightarrow> json" where
  "getSolUsdPrice outcome =
     (case getSolUsdPrice_try outcome of Inl e \<Rightarrow> JNumber 250 | Inr price \<Rightarrow> price)"

text \<open>The number that a multiplication makes of a value; \<open>None\<close> is \<open>NaN\<close>.\<close>

definition ToNumber :: "config \<Rightarrow> json \<Rightarrow> real option" where
  "ToNumber cfg v = (case v of JNumber x \<Rightarrow> Some x | _ \<Rightarrow> ToNumber_other cfg v)"

text \<open>\<open>Math.round\<close>: the nearest integer, a tie going up.\<close>

definition Math_round :: "real \<Rightarrow> int" where
  "Math_round x = \<lfloor>x + 1 / 2\<rfloor>"

subsection \<open>Statements that may throw\<close>

text \<open>
  A statement of the \<open>try\<close> block runs on the database and either throws, leaving
  the database as it found it, or takes effect. Statements follow one another until
  one throws: the result is the exception, if any, and the database reached.
\<close>

definition exec :: "env \<Rightarrow> stmt \<Rightarrow> (db \<Rightarrow> db) \<Rightarrow> db \<Rightarrow> exn option \<times> db" where
  "exec e st effect d = (case throws e st of Some x \<Rightarrow> (Some x, d) | None \<Rightarrow> (None, effect d))"

definition and_then :: "exn option \<times> db \<Rightarrow> (db \<Rightarrow> exn option \<times> db) \<Rightarrow> exn option \<times> db" where
  "and_then r next_statement =
     (case r of (Some x, d) \<Rightarrow> (Some x, d) | (None, d) \<Rightarrow> next_statement d)"

subsection \<open>Statements shared by both verification functions\<close>

text \<open>
  Modelled from the spec: \<open>addCredits\<close> of \<open>services/usage\<close> is not part of the
  sources at hand. It appends one entry \<open>{userId, amount, reason}\<close> to the append-only
  credit ledger.
\<close>

definition addCredits :: "string \<Rightarrow> int \<Rightarrow> string \<Rightarrow> string \<Rightarrow> db \<Rightarrow> db" where
  "addCredits userId amount type description d =
     d\<lparr>credit_ledger := credit_ledger d @
        [\<lparr>ce_user_id = userId, ce_amount = amount, ce_type = type,
          ce_description = description\<rparr>]\<rparr>"

definition maxRetries :: nat where
  "maxRetries = 30"

text \<open>\<open>status.value?.err\<close> is truthy.\<close>

fun status_err :: "string option option \<Rightarrow> bool" where
  "status_err (Some (Some e)) = True"
| "status_err _ = False"

text \<open>
  The polling loop \<open>for (attempt = 0; attempt < maxRetries; attempt++)\<close> with the
  variable \<open>tx\<close>. It leaves by \<open>return\<close> (on-chain error), by a thrown request
  (caught by the enclosing \<open>try\<close>), by \<open>break\<close> with the finalized record, or when
  the attempts are used up, with \<open>tx\<close> as the last iteration has set it. The wait
  between two attempts changes nothing that is modelled.
\<close>

function poll_loop ::
  "chain \<Rightarrow> string \<Rightarrow> nat \<Rightarrow> transaction_response option
     \<Rightarrow> verify_error + transaction_response option" where
  "poll_loop conn signature attempt tx =
     (if attempt < maxRetries then
        (case getSignatureStatus conn signature attempt of
           Inl e \<Rightarrow> Inl (caught e)
         | Inr status \<Rightarrow>
             if status_err status then Inl OnChainFailure
             else
               (case getTransaction conn signature Confirmed attempt of
                  Inl e \<Rightarrow> Inl (caught e)
                | Inr None \<Rightarrow> poll_loop conn signature (attempt + 1) None
                | Inr (Some confirmedTx) \<Rightarrow>
                    (case getTransaction conn signature Finalized attempt of
                       Inl e \<Rightarrow> Inl (caught e)
                     | Inr None \<Rightarrow> poll_loop conn signature (attempt + 1) (Some confirmedTx)
                     | Inr (Some finalizedTx) \<Rightarrow> Inr (Some finalizedTx))))
      else Inr tx)"
  by pat_completeness auto
termination
  by (relation "measure (\<lambda>(conn, signature, attempt, tx). maxRetries - attempt)") auto

declare poll_loop.simps [simp del]

text \<open>\<open>Array.prototype.findIndex\<close>: the first index that satisfies, or \<open>-1\<close>.\<close>

fun findIndex :: "('a \<Rightarrow> bool) \<Rightarrow> 'a list \<Rightarrow> int" where
  "findIndex P [] = -1"
| "findIndex P (x # xs) =
     (if P x then 0 else (let i = findIndex P xs in if i = -1 then -1 else i + 1))"

text \<open>\<open>balances[i] || 0\<close>: an index out of range reads \<open>undefined\<close>, hence \<open>0\<close>.\<close>

definition balance_at :: "int list \<Rightarrow> int \<Rightarrow> int" where
  "balance_at balances i =
     (if 0 \<le> i \<and> nat i < length balances then balances ! nat i else 0)"

definition staticAccountKeys_or_accountKeys :: "message \<Rightarrow> string list" where
  "staticAccountKeys_or_accountKeys m = (case m of Versioned ks \<Rightarrow> ks | Legacy ks \<Rightarrow> ks)"

text \<open>\<open>postBalance - preBalance\<close> of the account at \<open>treasuryIndex\<close>.\<close>

definition received_amount :: "transaction_response \<Rightarrow> int \<Rightarrow> int" where
  "received_amount tx treasuryIndex =
     (let preBalance = (case meta tx of None \<Rightarrow> 0 | Some m \<Rightarrow> balance_at (preBalances m) treasuryIndex);
          postBalance = (case meta tx of None \<Rightarrow> 0 | Some m \<Rightarrow> balance_at (postBalances m) treasuryIndex)
      in postBalance - preBalance)"

definition tolerance_of :: "int \<Rightarrow> real" where
  "tolerance_of expectedAmount = max (real_of_int expectedAmount * 0.01) 1000"

text \<open>
  The checks on the record that the loop has left in \<open>tx\<close>, the same statements in
  both functions: \<open>tx.meta?.err\<close>, the treasury key among the account keys, and the
  amount received against the expected amount.
\<close>

definition check_transaction :: "config \<Rightarrow> int \<Rightarrow> transaction_response \<Rightarrow> verify_error + unit" where
  "check_transaction cfg expectedAmount tx =
     (if (case meta tx of None \<Rightarrow> False | Some m \<Rightarrow> tm_err m \<noteq> None) then Inl OnChainFailure
      else
        (case PublicKey cfg (SOLANA_TREASURY_WALLET cfg) of
           Inl e \<Rightarrow> Inl (caught e)
         | Inr treasuryPubkey \<Rightarrow>
             (let accountKeys = staticAccountKeys_or_accountKeys (tx_message tx);
                  treasuryIndex = findIndex (\<lambda>key. key = treasuryPubkey) accountKeys
              in if treasuryIndex = -1 then Inl RecipientMismatch
                 else
                   (let received = received_amount tx treasuryIndex;
                        tolerance = tolerance_of expectedAmount
                    in if real_of_int received < real_of_int expectedAmount - tolerance
                       then Inl (AmountMismatch expectedAmount received)
                       else Inr ()))))"

text \<open>The loop and the test \<open>if (!tx)\<close> after it.\<close>

definition poll_transaction :: "chain \<Rightarrow> string \<Rightarrow> verify_error + transaction_response" where
  "poll_transaction conn signature =
     (case poll_loop conn signature 0 None of
        Inl e \<Rightarrow> Inl e
      | Inr None \<Rightarrow> Inl NotConfirmed
      | Inr (Some tx) \<Rightarrow> Inr tx)"

subsection \<open>Credit purchase: \<open>verifyAndCreditTransaction\<close>\<close>

text \<open>
  The statements before the \<open>try\<close> block, which run without suspension: the lookup
  \<open>WHERE id = ? AND user_id = ?\<close>, the status test and the signature test
  \<open>WHERE transaction_signature = ? AND id != ?\<close> on \<open>solana_transactions\<close>.
\<close>

definition credit_precheck ::
  "config \<Rightarrow> db \<Rightarrow> string \<Rightarrow> string \<Rightarrow> string \<Rightarrow> verify_error + solana_transaction" where
  "credit_precheck cfg d paymentId signature userId =
     (if \<not> isSolanaConfigured cfg then Inl NotConfigured
      else
        (case find (\<lambda>r. st_id r = paymentId \<and> st_user_id r = userId) (solana_transactions d) of
           None \<Rightarrow> Inl NotFound
         | Some pending \<Rightarrow>
             if st_status pending = ''completed'' then Inl AlreadyProcessed
             else if list_ex (\<lambda>r. st_transaction_signature r = signature \<and> st_id r \<noteq> paymentId)
                       (solana_transactions d)
             then Inl ReplayDetected
             else Inr pending))"

text \<open>
  \<open>UPDATE solana_transactions SET transaction_signature = ?, status = 'completed',
  verified_at = datetime('now') WHERE id = ?\<close>.
\<close>

definition credit_finalize :: "timestamp \<Rightarrow> string \<Rightarrow> string \<Rightarrow> db \<Rightarrow> db" where
  "credit_finalize t signature paymentId d =
     d\<lparr>solana_transactions :=
         map (\<lambda>r. if st_id r = paymentId
                  then r\<lparr>st_transaction_signature := signature, st_status := ''completed'',
                         st_verified_at := Some t\<rparr>
                  else r)
           (solana_transactions d)\<rparr>"

text \<open>
  The update and \<open>addCredits\<close>, which run without suspension after the checks.
  (The description passed to \<open>addCredits\<close> interpolates the number of credits;
  the model keeps its fixed part.)
\<close>

definition credit_commit ::
  "env \<Rightarrow> solana_transaction \<Rightarrow> string \<Rightarrow> string \<Rightarrow> string \<Rightarrow> db \<Rightarrow> exn option \<times> db" where
  "credit_commit e pending paymentId signature userId d =
     and_then (exec e UpdateTransaction (credit_finalize (now e) signature paymentId) d)
       (exec e AddCredits
          (addCredits userId (st_credits_purchased pending) ''purchased'' ''SOL payment''))"

text \<open>
  The row of the revenue event: \<open>usdCents = Math.round(amountSol * solPrice * 100)\<close>
  with the price as \<open>getSolUsdPrice\<close> returned it.
\<close>

definition insert_revenue_event :: "config \<Rightarrow> env \<Rightarrow> string \<Rightarrow> string \<Rightarrow> int \<Rightarrow> db \<Rightarrow> db" where
  "insert_revenue_event cfg e userId eventType amountLamports d =
     (let amountSol = real_of_int amountLamports / LAMPORTS_PER_SOL;
          solPrice = getSolUsdPrice (price_fetch e);
          usdCents = map_option (\<lambda>price. Math_round (amountSol * price * 100)) (ToNumber cfg solPrice)
      in d\<lparr>revenue_events := revenue_events d @
            [\<lparr>re_id = uuid_revenue e, re_user_id = userId, re_event_type = eventType,
              re_amount_cents = usdCents, re_description_sol = amountSol\<rparr>]\<rparr>)"

text \<open>The revenue event, written after the price has been awaited.\<close>

definition record_revenue ::
  "config \<Rightarrow> env \<Rightarrow> string \<Rightarrow> string \<Rightarrow> int \<Rightarrow> db \<Rightarrow> exn option \<times> db" where
  "record_revenue cfg e userId eventType amountLamports d =
     exec e InsertRevenueEvent (insert_revenue_event cfg e userId eventType amountLamports) d"

text \<open>The end of the \<open>try\<close> block: the value returned, or the \<open>catch\<close> block.\<close>

definition return_or_catch :: "'a \<Rightarrow> exn option \<times> db \<Rightarrow> (verify_error + 'a) \<times> db" where
  "return_or_catch v r = (case r of (Some x, d) \<Rightarrow> (Inl (caught x), d) | (None, d) \<Rightarrow> (Inr v, d))"

definition verifyAndCreditTransaction ::
  "config \<Rightarrow> env \<Rightarrow> db \<Rightarrow> string \<Rightarrow> string \<Rightarrow> string \<Rightarrow> (verify_error + int) \<times> db" where
  "verifyAndCreditTransaction cfg e d paymentId signature userId =
     (case credit_precheck cfg d paymentId signature userId of
        Inl err \<Rightarrow> (Inl err, d)
      | Inr pending \<Rightarrow>
          (case poll_transaction (rpc e) signature of
             Inl err \<Rightarrow> (Inl err, d)
           | Inr tx \<Rightarrow>
               (case check_transaction cfg (st_amount_lamports pending) tx of
                  Inl err \<Rightarrow> (Inl err, d)
                | Inr _ \<Rightarrow>
                    return_or_catch (st_credits_purchased pending)
                      (and_then (credit_commit e pending paymentId signature userId d)
                         (record_revenue cfg e userId ''credit_purchase''
                            (st_amount_lamports pending))))))"

subsection \<open>Subscription purchase: \<open>verifyAndCreateSubscription\<close>\<close>

text \<open>
  The statements before the \<open>try\<close> block: the lookup, the status test and the
  signature test, all three on \<open>solana_subscription_transactions\<close>.
\<close>

definition subscription_precheck ::
  "config \<Rightarrow> db \<Rightarrow> string \<Rightarrow> string \<Rightarrow> string
     \<Rightarrow> verify_error + solana_subscription_transaction" where
  "subscription_precheck cfg d paymentId signature userId =
     (if \<not> isSolanaConfigured cfg then Inl NotConfigured
      else
        (case find (\<lambda>r. sst_id r = paymentId \<and> sst_user_id r = userId)
                (solana_subscription_transactions d) of
           None \<Rightarrow> Inl NotFound
         | Some pending \<Rightarrow>
             if sst_status pending = ''completed'' then Inl AlreadyProcessed
             else if list_ex (\<lambda>r. sst_transaction_signature r = signature \<and> sst_id r \<noteq> paymentId)
                       (solana_subscription_transactions d)
             then Inl ReplayDetected
             else Inr pending))"

text \<open>
  \<open>UPDATE user_subscriptions SET ends_at = datetime('now')
  WHERE user_id = ? AND (ends_at IS NULL OR ends_at > datetime('now'))\<close>.
\<close>

definition ends_at_null_or_later :: "timestamp \<Rightarrow> user_subscription \<Rightarrow> bool" where
  "ends_at_null_or_later t s =
     (case us_ends_at s of None \<Rightarrow> True | Some ends \<Rightarrow> text_less (datetime t) ends)"

definition end_existing_subscriptions :: "timestamp \<Rightarrow> string \<Rightarrow> db \<Rightarrow> db" where
  "end_existing_subscriptions t userId d =
     d\<lparr>user_subscriptions :=
         map (\<lambda>s. if us_user_id s = userId \<and> ends_at_null_or_later t s
                  then s\<lparr>us_ends_at := Some (datetime t)\<rparr> else s)
           (user_subscriptions d)\<rparr>"

definition thirty_days :: int where
  "thirty_days = 30 * 24 * 60 * 60 * 1000"

text \<open>
  \<open>INSERT INTO user_subscriptions (id, user_id, product_id, starts_at, ends_at, status,
  current_period_start, current_period_end) VALUES (?, ?, ?, ?, ?, 'active', ?, ?)\<close>
  with \<open>startsAt = new Date().toISOString()\<close> and
  \<open>endsAt = new Date(Date.now() + 30 * 24 * 60 * 60 * 1000).toISOString()\<close>.
\<close>

definition new_subscription :: "env \<Rightarrow> string \<Rightarrow> string \<Rightarrow> user_subscription" where
  "new_subscription e userId productId =
     (let subscriptionId = uuid_subscription e;
          startsAt = toISOString (clock_new_Date e);
          endsAt = toISOString (clock_Date_now e + thirty_days)
      in \<lparr>us_id = subscriptionId, us_user_id = userId, us_product_id = productId,
          us_starts_at = startsAt, us_ends_at = Some endsAt, us_status = ''active'',
          us_current_period_start = Some startsAt, us_current_period_end = Some endsAt\<rparr>)"

definition create_subscription :: "env \<Rightarrow> string \<Rightarrow> string \<Rightarrow> db \<Rightarrow> db" where
  "create_subscription e userId productId d =
     d\<lparr>user_subscriptions := user_subscriptions d @ [new_subscription e userId productId]\<rparr>"

text \<open>
  \<open>SELECT bonus_credits FROM subscription_products WHERE id = ?\<close> and the bonus,
  added when the product exists and its bonus is positive.
\<close>

definition add_bonus_credits :: "env \<Rightarrow> string \<Rightarrow> string \<Rightarrow> db \<Rightarrow> exn option \<times> db" where
  "add_bonus_credits e userId productId d =
     and_then (exec e SelectBonusCredits (\<lambda>d. d) d)
       (\<lambda>d. case find (\<lambda>p. sp_id p = productId) (subscription_products d) of
               None \<Rightarrow> (None, d)
             | Some product \<Rightarrow>
                 if sp_bonus_credits product > 0
                 then exec e AddBonusCredits
                        (addCredits userId (sp_bonus_credits product) ''bonus''
                           ''Subscription welcome bonus (SOL)'') d
                 else (None, d))"

text \<open>
  \<open>UPDATE solana_subscription_transactions SET transaction_signature = ?,
  status = 'completed', verified_at = datetime('now'), subscription_id = ? WHERE id = ?\<close>.
\<close>

definition subscription_finalize :: "timestamp \<Rightarrow> string \<Rightarrow> string \<Rightarrow> string \<Rightarrow> db \<Rightarrow> db" where
  "subscription_finalize t signature subscriptionId paymentId d =
     d\<lparr>solana_subscription_transactions :=
         map (\<lambda>r. if sst_id r = paymentId
                  then r\<lparr>sst_transaction_signature := signature, sst_status := ''completed'',
                         sst_verified_at := Some t, sst_subscription_id := Some subscriptionId\<rparr>
                  else r)
           (solana_subscription_transactions d)\<rparr>"

text \<open>
  The statements that run without suspension after the checks, in the order of the
  code: close the open subscriptions, insert the new one, read the bonus and add it,
  complete the intent. The first that throws ends the sequence.
\<close>

definition subscription_commit ::
  "env \<Rightarrow> solana_subscription_transaction \<Rightarrow> string \<Rightarrow> string \<Rightarrow> string \<Rightarrow> db
     \<Rightarrow> exn option \<times> db" where
  "subscription_commit e pending paymentId signature userId d =
     and_then
       (and_then
          (and_then
             (exec e EndSubscriptions
                (end_existing_subscriptions (clock_end_subscriptions e) userId) d)
             (exec e InsertSubscription (create_subscription e userId (sst_product_id pending))))
          (add_bonus_credits e userId (sst_product_id pending)))
       (exec e UpdateSubscriptionTransaction
          (subscription_finalize (now e) signature (uuid_subscription e) paymentId))"

definition verifyAndCreateSubscription ::
  "config \<Rightarrow> env \<Rightarrow> db \<Rightarrow> string \<Rightarrow> string \<Rightarrow> string \<Rightarrow> (verify_error + string) \<times> db" where
  "verifyAndCreateSubscription cfg e d paymentId signature userId =
     (case subscription_precheck cfg d paymentId signature userId of
        Inl err \<Rightarrow> (Inl err, d)
      | Inr pending \<Rightarrow>
          (case poll_transaction (rpc e) signature of
             Inl err \<Rightarrow> (Inl err, d)
           | Inr tx \<Rightarrow>
               (case check_transaction cfg (sst_amount_lamports pending) tx of
                  Inl err \<Rightarrow> (Inl err, d)
                | Inr _ \<Rightarrow>
                    return_or_catch (uuid_subscription e)
                      (and_then (subscription_commit e pending paymentId signature userId d)
                         (record_revenue cfg e userId ''sol_subscription''
                            (sst_amount_lamports pending))))))"

subsection \<open>Transaction history: \<open>getUserTransactions\<close>\<close>

text \<open>
  \<open>SELECT ... FROM solana_transactions WHERE user_id = ? AND status = 'completed'
  ORDER BY created_at DESC LIMIT ?\<close>. The order of rows with equal \<open>created_at\<close> is
  SQLite's choice; here it is the reverse of the stable ascending sort. A negative
  \<open>LIMIT\<close> is no limit. The mapping of the columns to the fields of
  \<open>SolanaTransaction\<close> only renames them.
\<close>

definition sql_limit :: "int \<Rightarrow> 'a list \<Rightarrow> 'a list" where
  "sql_limit n rows = (if n < 0 then rows else take (nat n) rows)"

definition getUserTransactions :: "db \<Rightarrow> string \<Rightarrow> int \<Rightarrow> solana_transaction list" where
  "getUserTransactions d userId limit =
     sql_limit limit
       (rev (sort_key st_created_at
          (filter (\<lambda>r. st_user_id r = userId \<and> st_status r = ''completed'')
             (solana_transactions d))))"

text \<open>The default parameter \<open>limit = 20\<close>, as the route handler calls it.\<close>

definition getUserTransactions_default :: "db \<Rightarrow> string \<Rightarrow> solana_transaction list" where
  "getUserTransactions_default d userId = getUserTransactions d userId 20"

subsection \<open>An iteration that goes on to the next one\<close>

text \<open>
  Iteration \<open>attempt\<close> of the polling loop neither returns nor throws nor breaks:
  the status request answers without an error status, and either no record is known at
  the lighter commitment, or one is known there and none at \<open>finalized\<close>.
\<close>

definition continues :: "chain \<Rightarrow> string \<Rightarrow> nat \<Rightarrow> bool" where
  "continues conn signature attempt =
     (case getSignatureStatus conn signature attempt of
        Inl e \<Rightarrow> False
      | Inr status \<Rightarrow>
          \<not> status_err status \<and>
          (case getTransaction conn signature Confirmed attempt of
             Inl e \<Rightarrow> False
           | Inr None \<Rightarrow> True
           | Inr (Some confirmedTx) \<Rightarrow>
               (case getTransaction conn signature Finalized attempt of
                  Inl e \<Rightarrow> False
                | Inr None \<Rightarrow> True
                | Inr (Some finalizedTx) \<Rightarrow> False)))"

subsection \<open>The writes of a call in which no statement throws\<close>

definition bonus_effect :: "string \<Rightarrow> string \<Rightarrow> db \<Rightarrow> db" where
  "bonus_effect userId productId d =
     (case find (\<lambda>p. sp_id p = productId) (subscription_products d) of
        None \<Rightarrow> d
      | Some product \<Rightarrow>
          if sp_bonus_credits product > 0
          then addCredits userId (sp_bonus_credits product) ''bonus''
                 ''Subscription welcome bonus (SOL)'' d
          else d)"

definition credit_effect ::
  "config \<Rightarrow> env \<Rightarrow> solana_transaction \<Rightarrow> string \<Rightarrow> string \<Rightarrow> string \<Rightarrow> db \<Rightarrow> db" where
  "credit_effect cfg e pending paymentId signature userId d =
     insert_revenue_event cfg e userId ''credit_purchase'' (st_amount_lamports pending)
       (addCredits userId (st_credits_purchased pending) ''purchased'' ''SOL payment''
          (credit_finalize (now e) signature paymentId d))"

definition subscription_effect ::
  "config \<Rightarrow> env \<Rightarrow> solana_subscription_transaction \<Rightarrow> string \<Rightarrow> string \<Rightarrow> string \<Rightarrow> db \<Rightarrow> db" where
  "subscription_effect cfg e pending paymentId signature userId d =
     insert_revenue_event cfg e userId ''sol_subscription'' (sst_amount_lamports pending)
       (subscription_finalize (now e) signature (uuid_subscription e) paymentId
          (bonus_effect userId (sst_product_id pending)
             (create_subscription e userId (sst_product_id pending)
                (end_existing_subscriptions (clock_end_subscriptions e) userId d))))"

subsection \<open>Two calls for one intent\<close>

text \<open>
  A verification call runs without suspension up to its first \<open>await\<close>, the first
  request of the polling loop, and again from the end of the loop to the \<open>await\<close> of
  the price. Two calls \<open>A\<close> and \<open>B\<close> for the same intent can therefore run in this
  order: the statements before the \<open>try\<close> block of \<open>A\<close>, then those of \<open>B\<close>, both
  on the database as it was; the polling and the checks of each; the update and
  \<open>addCredits\<close> of \<open>A\<close>, then those of \<open>B\<close>; the revenue event of \<open>A\<close>, then
  that of \<open>B\<close>. The function returns both results and the final database, and
  \<open>None\<close> when either call fails.
\<close>

definition interleaved_credit_verifications ::
  "config \<Rightarrow> env \<Rightarrow> env \<Rightarrow> db \<Rightarrow> string \<Rightarrow> string \<Rightarrow> string
     \<Rightarrow> ((verify_error + int) \<times> (verify_error + int) \<times> db) option" where
  "interleaved_credit_verifications cfg eA eB d paymentId signature userId =
     (case (credit_precheck cfg d paymentId signature userId,
            credit_precheck cfg d paymentId signature userId) of
        (Inr pendingA, Inr pendingB) \<Rightarrow>
          (case (poll_transaction (rpc eA) signature, poll_transaction (rpc eB) signature) of
             (Inr txA, Inr txB) \<Rightarrow>
               (case (check_transaction cfg (st_amount_lamports pendingA) txA,
                      check_transaction cfg (st_amount_lamports pendingB) txB) of
                  (Inr _, Inr _) \<Rightarrow>
                    (case and_then
                            (and_then
                               (and_then (credit_commit eA pendingA paymentId signature userId d)
                                  (credit_commit eB pendingB paymentId signature userId))
                               (record_revenue cfg eA userId ''credit_purchase''
                                  (st_amount_lamports pendingA)))
                            (record_revenue cfg eB userId ''credit_purchase''
                               (st_amount_lamports pendingB)) of
                       (None, d') \<Rightarrow>
                         Some (Inr (st_credits_purchased pendingA),
                               Inr (st_credits_purchased pendingB), d')
                     | (Some x, d') \<Rightarrow> None)
                | _ \<Rightarrow> None)
           | _ \<Rightarrow> None)
      | _ \<Rightarrow> None)"

subsection \<open>A concrete scenario\<close>

text \<open>
  One user \<open>u1\<close> with a pending credit purchase \<open>p1\<close> (0.1 SOL for 50 credits), a
  pending subscription purchase \<open>s1\<close> (0.5 SOL for the product \<open>pro\<close>) and an open
  subscription; a finalized transfer of 0.5 SOL to the treasury under the signature
  \<open>sig1\<close>; a price request that fails. \<open>db1\<close> is the database after \<open>p1\<close> has been
  verified with \<open>sig1\<close>, \<open>db2\<close> the database after \<open>s1\<close> has been.
\<close>

definition sig1 :: string where
  "sig1 = ''5VERv8NMvzbJMEkV8xnrLkEaWRtSz9CosKDYjCJjBRnbJLgp8uirBgmQpjKhoR4tjF3ZpRzrFmBV6UjKdiSZkQUW''"

definition treasury0 :: string where
  "treasury0 = ''7xKXtg2CW87d97TXJSDpbD5jBkheTqA83TZRuJosgAsU''"

definition payer0 :: string where
  "payer0 = ''9WzDXwBbmkg8ZTbNMqUxvQRAyrZzDsGYdLVL9zYtAWWM''"

definition cfg0 :: config where
  "cfg0 = \<lparr>SOLANA_TREASURY_WALLET = treasury0,
           PublicKey = (\<lambda>s. if s = treasury0 then Inr s else Inl (Error ''Invalid public key input'')),
           ToNumber_other = (\<lambda>v. None)\<rparr>"

definition tx0 :: transaction_response where
  "tx0 = \<lparr>meta = Some \<lparr>tm_err = None, preBalances = [2000000000, 0, 1],
                       postBalances = [1499995000, 500000000, 1]\<rparr>,
          tx_message = Legacy [payer0, treasury0, ''11111111111111111111111111111111'']\<rparr>"

definition chain0 :: chain where
  "chain0 = \<lparr>getSignatureStatus = (\<lambda>s attempt. Inr (Some None)),
             getTransaction = (\<lambda>s c attempt. if s = sig1 then Inr (Some tx0) else Inr None)\<rparr>"

definition env0 :: env where
  "env0 = \<lparr>rpc = chain0, now = 1000, clock_end_subscriptions = 1000, clock_new_Date = 1000,
           clock_Date_now = 1000, uuid_subscription = ''sub-2'', uuid_revenue = ''rev-1'',
           price_fetch = FetchRejects (Error ''fetch failed''), throws = (\<lambda>st. None)\<rparr>"

text \<open>The environment of a later call: a later clock and fresh identifiers.\<close>

definition env1 :: env where
  "env1 = env0\<lparr>now := 61000, clock_end_subscriptions := 61000, clock_new_Date := 61000,
           clock_Date_now := 61000, uuid_subscription := ''sub-3'', uuid_revenue := ''rev-2''\<rparr>"

definition credit_row0 :: solana_transaction where
  "credit_row0 = \<lparr>st_id = ''p1'', st_user_id = ''u1'', st_wallet_address = payer0,
     st_transaction_signature = ''pending_p1'', st_amount_lamports = 100000000,
     st_amount_sol = 0.1, st_credits_purchased = 50, st_status = ''pending'',
     st_network = ''mainnet-beta'', st_verified_at = None, st_created_at = 900\<rparr>"

definition sub_row0 :: solana_subscription_transaction where
  "sub_row0 = \<lparr>sst_id = ''s1'', sst_user_id = ''u1'', sst_product_id = ''pro'',
     sst_wallet_address = payer0, sst_transaction_signature = ''pending_s1'',
     sst_amount_lamports = 500000000, sst_amount_sol = 0.5, sst_status = ''pending'',
     sst_network = ''mainnet-beta'', sst_verified_at = None, sst_subscription_id = None,
     sst_created_at = 950\<rparr>"

definition old_sub0 :: user_subscription where
  "old_sub0 = \<lparr>us_id = ''sub-1'', us_user_id = ''u1'', us_product_id = ''basic'',
     us_starts_at = Stamp IsoText 100, us_ends_at = None, us_status = ''active'',
     us_current_period_start = Some (Stamp IsoText 100), us_current_period_end = None\<rparr>"

definition db0 :: db where
  "db0 = \<lparr>solana_transactions = [credit_row0],
          solana_subscription_transactions = [sub_row0],
          user_subscriptions = [old_sub0],
          subscription_products = [\<lparr>sp_id = ''pro'', sp_bonus_credits = 10\<rparr>],
          credit_ledger = [], revenue_events = []\<rparr>"

definition credit_row1 :: solana_transaction where
  "credit_row1 = credit_row0\<lparr>st_transaction_signature := sig1, st_status := ''completed'',
     st_verified_at := Some 1000\<rparr>"

definition db1 :: db where
  "db1 = db0\<lparr>solana_transactions := [credit_row1],
     credit_ledger := [\<lparr>ce_user_id = ''u1'', ce_amount = 50, ce_type = ''purchased'',
                        ce_description = ''SOL payment''\<rparr>],
     revenue_events := [\<lparr>re_id = ''rev-1'', re_user_id = ''u1'', re_event_type = ''credit_purchase'',
                         re_amount_cents = Some 2500, re_description_sol = 0.1\<rparr>]\<rparr>"

definition sub_row1 :: solana_subscription_transaction where
  "sub_row1 = sub_row0\<lparr>sst_transaction_signature := sig1, sst_status := ''completed'',
     sst_verified_at := Some 1000, sst_subscription_id := Some ''sub-2''\<rparr>"

definition new_sub0 :: user_subscription where
  "new_sub0 = \<lparr>us_id = ''sub-2'', us_user_id = ''u1'', us_product_id = ''pro'',
     us_starts_at = Stamp IsoText 1000, us_ends_at = Some (Stamp IsoText 2592001000),
     us_status = ''active'', us_current_period_start = Some (Stamp IsoText 1000),
     us_current_period_end = Some (Stamp IsoText 2592001000)\<rparr>"

definition db2 :: db where
  "db2 = db0\<lparr>solana_subscription_transactions := [sub_row1],
     user_subscriptions := [old_sub0\<lparr>us_ends_at := Some (Stamp SqliteText 1000)\<rparr>, new_sub0],
     credit_ledger := [\<lparr>ce_user_id = ''u1'', ce_amount = 10, ce_type = ''bonus'',
                        ce_description = ''Subscription welcome bonus (SOL)''\<rparr>],
     revenue_events := [\<lparr>re_id = ''rev-1'', re_user_id = ''u1'', re_event_type = ''sol_subscription'',
                         re_amount_cents = Some 12500, re_description_sol = 0.5\<rparr>]\<rparr>"

text \<open>
  A history for \<open>getUserTransactions\<close>: two completed purchases and a pending one
  of \<open>u1\<close>, and a completed purchase of another user.
\<close>

definition history_rows :: "solana_transaction list" where
  "history_rows =
     [credit_row1,
      credit_row0\<lparr>st_id := ''p2'', st_created_at := 950\<rparr>,
      credit_row1\<lparr>st_id := ''p3'', st_user_id := ''u2'', st_created_at := 960\<rparr>,
      credit_row1\<lparr>st_id := ''p4'', st_transaction_signature := ''sig4'', st_created_at := 980\<rparr>]"

definition history_db :: db where
  "history_db = db0\<lparr>solana_transactions := history_rows\<rparr>"

text \<open>
  A chain on which the status of the signature is unknown for two attempts and an
  on-chain error at the third, and where a finalized record would be served from the
  fourth attempt on.
\<close>

definition chain_failing :: chain where
  "chain_failing =
     \<lparr>getSignatureStatus = (\<lambda>s attempt. if attempt < 2 then Inr None
          else if attempt = 2 then Inr (Some (Some ''InstructionError'')) else Inr (Some None)),
      getTransaction = (\<lambda>s c attempt. if attempt < 3 then Inr None else Inr (Some tx0))\<rparr>"

text \<open>
  A transaction that moves \<open>amount\<close> lamports to the treasury, and an environment
  whose chain serves it, finalized, for every signature. \<open>replay_db\<close> is \<open>db2\<close>
  with a second, pending subscription purchase \<open>s2\<close>.
\<close>

definition tx_paying :: "int \<Rightarrow> transaction_response" where
  "tx_paying amount =
     \<lparr>meta = Some \<lparr>tm_err = None, preBalances = [2000000000, 0, 1],
                   postBalances = [2000000000 - amount - 5000, amount, 1]\<rparr>,
      tx_message = Versioned [payer0, treasury0, ''11111111111111111111111111111111'']\<rparr>"

definition env_paying :: "int \<Rightarrow> env" where
  "env_paying amount =
     env0\<lparr>rpc := \<lparr>getSignatureStatus = (\<lambda>s attempt. Inr (Some None)),
                  getTransaction = (\<lambda>s c attempt. Inr (Some (tx_paying amount)))\<rparr>\<rparr>"







text \<open>
  A renewal on 2026-11-02 (which begins at 1793577600000): the user has two
  subscriptions written by \<open>toISOString()\<close> that ended that day, one from 08:00 to
  10:00 and one from 11:00 to 12:00, and buys a subscription at 17:00:00.250, the
  clock showing one millisecond more when \<open>Date.now()\<close> reads it.
\<close>

definition morning_sub :: user_subscription where
  "morning_sub = \<lparr>us_id = ''sub-a'', us_user_id = ''u1'', us_product_id = ''basic'',
     us_starts_at = Stamp IsoText 1793606400000, us_ends_at = Some (Stamp IsoText 1793613600000),
     us_status = ''active'', us_current_period_start = Some (Stamp IsoText 1793606400000),
     us_current_period_end = Some (Stamp IsoText 1793613600000)\<rparr>"

definition noon_sub :: user_subscription where
  "noon_sub = \<lparr>us_id = ''sub-b'', us_user_id = ''u1'', us_product_id = ''basic'',
     us_starts_at = Stamp IsoText 1793617200000, us_ends_at = Some (Stamp IsoText 1793620800000),
     us_status = ''active'', us_current_period_start = Some (Stamp IsoText 1793617200000),
     us_current_period_end = Some (Stamp IsoText 1793620800000)\<rparr>"

definition renewal_db :: db where
  "renewal_db = db0\<lparr>user_subscriptions := [morning_sub, noon_sub]\<rparr>"

definition renewal_env :: env where
  "renewal_env = env0\<lparr>now := 1793638800251, clock_end_subscriptions := 1793638800250,
     clock_new_Date := 1793638800250, clock_Date_now := 1793638800251,
     uuid_subscription := ''sub-9'', uuid_revenue := ''rev-9''\<rparr>"

definition renewed_sub :: user_subscription where
  "renewed_sub = \<lparr>us_id = ''sub-9'', us_user_id = ''u1'', us_product_id = ''pro'',
     us_starts_at = Stamp IsoText 1793638800250, us_ends_at = Some (Stamp IsoText 1796230800251),
     us_status = ''active'', us_current_period_start = Some (Stamp IsoText 1793638800250),
     us_current_period_end = Some (Stamp IsoText 1796230800251)\<rparr>"

section \<open>Properties\<close>

subsection \<open>Statements in sequence\<close>

lemma exec_None: "exec e st effect d = (None, d') \<longleftrightarrow> throws e st = None \<and> d' = effect d"
  by (auto simp: exec_def split: option.splits)


lemma and_then_None:
  "and_then r f = (None, d') \<longleftrightarrow> (\<exists>d1. r = (None, d1) \<and> f d1 = (None, d'))"
  by (cases r) (auto simp: and_then_def split: option.splits)


lemma return_or_catch_Inr: "return_or_catch v r = (Inr c, d') \<longleftrightarrow> c = v \<and> r = (None, d')"
  by (cases r) (auto simp: return_or_catch_def split: option.splits)


lemma add_bonus_credits_None:
  "add_bonus_credits e u productId d = (None, d') \<Longrightarrow> d' = bonus_effect u productId d"
  by (auto simp: add_bonus_credits_def bonus_effect_def and_then_None exec_None
      split: option.splits if_splits)

lemma add_bonus_credits_no_throw:
  "\<forall>st. throws e st = None \<Longrightarrow>
     add_bonus_credits e u productId d = (None, bonus_effect u productId d)"
  by (simp add: add_bonus_credits_def bonus_effect_def and_then_def exec_def
      split: option.splits)

lemma credit_writes_None:
  "and_then (credit_commit e pending p s u d)
       (record_revenue cfg e u ''credit_purchase'' (st_amount_lamports pending)) = (None, d')
     \<longleftrightarrow> throws e UpdateTransaction = None \<and> throws e AddCredits = None \<and>
         throws e InsertRevenueEvent = None \<and> d' = credit_effect cfg e pending p s u d"
  by (auto simp: credit_commit_def record_revenue_def credit_effect_def and_then_None exec_None)

lemma subscription_writes_None:
  "and_then (subscription_commit e pending p s u d)
       (record_revenue cfg e u ''sol_subscription'' (sst_amount_lamports pending)) = (None, d')
     \<Longrightarrow> d' = subscription_effect cfg e pending p s u d"
  by (auto simp: subscription_commit_def record_revenue_def subscription_effect_def
      and_then_None exec_None dest!: add_bonus_credits_None)

lemma subscription_writes_no_throw:
  "\<forall>st. throws e st = None \<Longrightarrow>
     and_then (subscription_commit e pending p s u d)
       (record_revenue cfg e u ''sol_subscription'' (sst_amount_lamports pending))
     = (None, subscription_effect cfg e pending p s u d)"
  by (simp add: subscription_commit_def record_revenue_def subscription_effect_def
      and_then_def exec_def add_bonus_credits_no_throw)




subsection \<open>Reading the verification functions backwards\<close>

lemma credit_precheck_Inr:
  "credit_precheck cfg d p s u = Inr pending \<longleftrightarrow>
     isSolanaConfigured cfg \<and>
     find (\<lambda>r. st_id r = p \<and> st_user_id r = u) (solana_transactions d) = Some pending \<and>
     st_status pending \<noteq> ''completed'' \<and>
     \<not> list_ex (\<lambda>r. st_transaction_signature r = s \<and> st_id r \<noteq> p) (solana_transactions d)"
  unfolding credit_precheck_def by (auto split: option.splits)

lemma subscription_precheck_Inr:
  "subscription_precheck cfg d p s u = Inr pending \<longleftrightarrow>
     isSolanaConfigured cfg \<and>
     find (\<lambda>r. sst_id r = p \<and> sst_user_id r = u) (solana_subscription_transactions d) = Some pending \<and>
     sst_status pending \<noteq> ''completed'' \<and>
     \<not> list_ex (\<lambda>r. sst_transaction_signature r = s \<and> sst_id r \<noteq> p)
          (solana_subscription_transactions d)"
  unfolding subscription_precheck_def by (auto split: option.splits)

lemma credit_success:
  "verifyAndCreditTransaction cfg e d p s u = (Inr c, d') \<Longrightarrow>
     \<exists>pending tx. credit_precheck cfg d p s u = Inr pending \<and>
        poll_transaction (rpc e) s = Inr tx \<and>
        check_transaction cfg (st_amount_lamports pending) tx = Inr () \<and>
        c = st_credits_purchased pending \<and>
        d' = credit_effect cfg e pending p s u d"
  unfolding verifyAndCreditTransaction_def
  by (auto simp: return_or_catch_Inr credit_writes_None split: sum.splits)

lemma subscription_success:
  "verifyAndCreateSubscription cfg e d p s u = (Inr c, d') \<Longrightarrow>
     \<exists>pending tx. subscription_precheck cfg d p s u = Inr pending \<and>
        poll_transaction (rpc e) s = Inr tx \<and>
        check_transaction cfg (sst_amount_lamports pending) tx = Inr () \<and>
        c = uuid_subscription e \<and>
        d' = subscription_effect cfg e pending p s u d"
  unfolding verifyAndCreateSubscription_def
  by (auto simp: return_or_catch_Inr split: sum.splits dest: subscription_writes_None)



lemma find_map_preserved:
  assumes "\<And>x. P (f x) = P x"
  shows "find P (map f xs) = map_option f (find P xs)"
  using assms by (induction xs) auto

lemma find_Some_P: "find P xs = Some x \<Longrightarrow> P x"
  by (induction xs) (auto split: if_splits)

lemma solana_transactions_after_credit:
  "solana_transactions (credit_effect cfg e pending p s u d) =
     solana_transactions (credit_finalize (now e) s p d)"
  by (simp add: credit_effect_def insert_revenue_event_def addCredits_def Let_def)

lemma sst_after_subscription:
  "solana_subscription_transactions (subscription_effect cfg e pending p s u d) =
   map (\<lambda>r. if sst_id r = p
                  then r\<lparr>sst_transaction_signature := s, sst_status := ''completed'',
                         sst_verified_at := Some (now e), sst_subscription_id := Some (uuid_subscription e)\<rparr>
                  else r) (solana_subscription_transactions d)"
  by (simp add: subscription_effect_def insert_revenue_event_def subscription_finalize_def
      bonus_effect_def addCredits_def create_subscription_def end_existing_subscriptions_def
      Let_def split: option.splits)

lemma user_subscriptions_after:
  "user_subscriptions (subscription_effect cfg e pending p s u d) =
     map (\<lambda>s. if us_user_id s = u \<and> ends_at_null_or_later (clock_end_subscriptions e) s
               then s\<lparr>us_ends_at := Some (datetime (clock_end_subscriptions e))\<rparr> else s)
       (user_subscriptions d) @ [new_subscription e u (sst_product_id pending)]"
  by (simp add: subscription_effect_def insert_revenue_event_def subscription_finalize_def
      bonus_effect_def addCredits_def create_subscription_def end_existing_subscriptions_def
      Let_def split: option.splits)

lemma credit_lookup_after_success:
  assumes "verifyAndCreditTransaction cfg e d p s u = (Inr c, d')"
  shows "\<exists>row. find (\<lambda>r. st_id r = p \<and> st_user_id r = u) (solana_transactions d') = Some row
            \<and> st_status row = ''completed''"
proof -
  from credit_success [OF assms] obtain pending where
    pre: "credit_precheck cfg d p s u = Inr pending" and
    d': "d' = credit_effect cfg e pending p s u d"
    by blast
  from pre have f: "find (\<lambda>r. st_id r = p \<and> st_user_id r = u) (solana_transactions d) = Some pending"
    by (simp add: credit_precheck_Inr)
  then have idp: "st_id pending = p" by (auto dest: find_Some_P)
  let ?f = "\<lambda>r. if st_id r = p
                  then r\<lparr>st_transaction_signature := s, st_status := ''completed'',
                         st_verified_at := Some (now e)\<rparr>
                  else r"
  have "find (\<lambda>r. st_id r = p \<and> st_user_id r = u) (map ?f (solana_transactions d))
        = map_option ?f (find (\<lambda>r. st_id r = p \<and> st_user_id r = u) (solana_transactions d))"
    by (rule find_map_preserved) simp
  with f idp show ?thesis
    by (simp add: d' solana_transactions_after_credit credit_finalize_def)
qed

lemma subscription_lookup_after_success:
  assumes "verifyAndCreateSubscription cfg e d p s u = (Inr c, d')"
  shows "\<exists>row. find (\<lambda>r. sst_id r = p \<and> sst_user_id r = u) (solana_subscription_transactions d') = Some row
            \<and> sst_status row = ''completed''"
proof -
  from subscription_success [OF assms] obtain pending where
    pre: "subscription_precheck cfg d p s u = Inr pending" and
    d': "d' = subscription_effect cfg e pending p s u d"
    by blast
  from pre have f: "find (\<lambda>r. sst_id r = p \<and> sst_user_id r = u) (solana_subscription_transactions d) = Some pending"
    by (simp add: subscription_precheck_Inr)
  then have idp: "sst_id pending = p" by (auto dest: find_Some_P)
  let ?f = "\<lambda>r. if sst_id r = p
                  then r\<lparr>sst_transaction_signature := s, sst_status := ''completed'',
                         sst_verified_at := Some (now e), sst_subscription_id := Some (uuid_subscription e)\<rparr>
                  else r"
  have "find (\<lambda>r. sst_id r = p \<and> sst_user_id r = u) (map ?f (solana_subscription_transactions d))
        = map_option ?f (find (\<lambda>r. sst_id r = p \<and> sst_user_id r = u) (solana_subscription_transactions d))"
    by (rule find_map_preserved) simp
  with f idp show ?thesis
    by (simp add: d' sst_after_subscription)
qed

lemma credit_configured:
  "verifyAndCreditTransaction cfg e d p s u = (Inr c, d') \<Longrightarrow> isSolanaConfigured cfg"
  by (auto dest!: credit_success simp: credit_precheck_Inr)

lemma subscription_configured:
  "verifyAndCreateSubscription cfg e d p s u = (Inr c, d') \<Longrightarrow> isSolanaConfigured cfg"
  by (auto dest!: subscription_success simp: subscription_precheck_Inr)

lemma credit_run:
  assumes "credit_precheck cfg d p s u = Inr pending"
    and "poll_transaction (rpc e) s = Inr tx"
    and "check_transaction cfg (st_amount_lamports pending) tx = Inr ()"
    and "\<forall>st. throws e st = None"
  shows "verifyAndCreditTransaction cfg e d p s u =
     (Inr (st_credits_purchased pending), credit_effect cfg e pending p s u d)"
proof -
  from assms(4) have "and_then (credit_commit e pending p s u d)
       (record_revenue cfg e u ''credit_purchase'' (st_amount_lamports pending))
     = (None, credit_effect cfg e pending p s u d)"
    by (simp add: credit_writes_None)
  with assms(1-3) show ?thesis
    by (simp add: verifyAndCreditTransaction_def return_or_catch_def)
qed

lemma subscription_run:
  assumes "subscription_precheck cfg d p s u = Inr pending"
    and "poll_transaction (rpc e) s = Inr tx"
    and "check_transaction cfg (sst_amount_lamports pending) tx = Inr ()"
    and "\<forall>st. throws e st = None"
  shows "verifyAndCreateSubscription cfg e d p s u =
     (Inr (uuid_subscription e), subscription_effect cfg e pending p s u d)"
  using assms(1-3) subscription_writes_no_throw [OF assms(4)]
  by (simp add: verifyAndCreateSubscription_def return_or_catch_def)

subsection \<open>The scenario, evaluated\<close>

lemma poll0: "poll_transaction chain0 sig1 = Inr tx0"
  by (simp add: poll_transaction_def poll_loop.simps chain0_def maxRetries_def)

lemma findIndex0: "findIndex (\<lambda>key. key = treasury0) [payer0, treasury0, ''11111111111111111111111111111111''] = 1"
  by (simp add: treasury0_def payer0_def)

lemma check0: "check_transaction cfg0 100000000 tx0 = Inr ()"
  by (simp add: check_transaction_def cfg0_def tx0_def staticAccountKeys_or_accountKeys_def
      received_amount_def balance_at_def tolerance_of_def findIndex0 [unfolded treasury0_def payer0_def] treasury0_def payer0_def)

lemma check0': "check_transaction cfg0 500000000 tx0 = Inr ()"
  by (simp add: check_transaction_def cfg0_def tx0_def staticAccountKeys_or_accountKeys_def
      received_amount_def balance_at_def tolerance_of_def findIndex0 [unfolded treasury0_def payer0_def] treasury0_def payer0_def)

lemma configured0: "isSolanaConfigured cfg0"
  by (simp add: cfg0_def isSolanaConfigured_def treasury0_def)

lemma pre0: "credit_precheck cfg0 db0 ''p1'' sig1 ''u1'' = Inr credit_row0"
  by (simp add: credit_precheck_def configured0 db0_def credit_row0_def sig1_def)

lemma spre0: "subscription_precheck cfg0 db0 ''s1'' sig1 ''u1'' = Inr sub_row0"
  by (simp add: subscription_precheck_def configured0 db0_def sub_row0_def sig1_def)

lemma price0: "getSolUsdPrice (price_fetch env0) = JNumber 250"
  by (simp add: env0_def getSolUsdPrice_def getSolUsdPrice_try_def)

lemma price_rejected: "getSolUsdPrice (FetchRejects x) = JNumber 250"
  by (simp add: getSolUsdPrice_def getSolUsdPrice_try_def)

lemma poll_env0: "poll_transaction (rpc env0) sig1 = Inr tx0" "poll_transaction (rpc env1) sig1 = Inr tx0"
  using poll0 by (simp_all add: env0_def env1_def)

lemma row0_fields:
  "st_amount_lamports credit_row0 = 100000000" "st_credits_purchased credit_row0 = 50"
  "sst_amount_lamports sub_row0 = 500000000" "uuid_subscription env0 = ''sub-2''"
  by (simp_all add: credit_row0_def sub_row0_def env0_def)

lemma check_row0:
  "check_transaction cfg0 (st_amount_lamports credit_row0) tx0 = Inr ()"
  "check_transaction cfg0 (sst_amount_lamports sub_row0) tx0 = Inr ()"
  using check0 check0' by (simp_all only: row0_fields)

lemma throws0: "\<forall>st. throws env0 st = None"
  by (simp add: env0_def)



lemma credit_effect0: "credit_effect cfg0 env0 credit_row0 ''p1'' sig1 ''u1'' db0 = db1"
  by (simp add: credit_effect_def insert_revenue_event_def price_rejected ToNumber_def Math_round_def
      LAMPORTS_PER_SOL_def addCredits_def credit_finalize_def db0_def db1_def
      credit_row0_def credit_row1_def env0_def Let_def)

lemma credit_run0: "verifyAndCreditTransaction cfg0 env0 db0 ''p1'' sig1 ''u1'' = (Inr 50, db1)"
  using credit_run [OF pre0 poll_env0(1) check_row0(1) throws0]
  by (simp only: credit_effect0 row0_fields)

lemma subscription_effect0: "subscription_effect cfg0 env0 sub_row0 ''s1'' sig1 ''u1'' db0 = db2"
  by (simp add: subscription_effect_def insert_revenue_event_def price_rejected ToNumber_def Math_round_def
      LAMPORTS_PER_SOL_def addCredits_def subscription_finalize_def
      bonus_effect_def create_subscription_def new_subscription_def thirty_days_def
      end_existing_subscriptions_def ends_at_null_or_later_def toISOString_def datetime_def
      db0_def db2_def old_sub0_def new_sub0_def
      sub_row0_def sub_row1_def env0_def Let_def)

lemma subscription_run0: "verifyAndCreateSubscription cfg0 env0 db0 ''s1'' sig1 ''u1'' = (Inr ''sub-2'', db2)"
  using subscription_run [OF spre0 poll_env0(1) check_row0(2) throws0]
  by (simp only: subscription_effect0 row0_fields)



subsection \<open>Repeated submission\<close>

text \<open>
  C3. After a verification call for a payment id has succeeded, the intent is
  \<open>completed\<close>, and the next call of the owner with that payment id, with any
  signature and any answers of the chain, fails with \<open>AlreadyProcessed\<close> and leaves the
  database as it is: no credits, no subscription, no revenue event are added. The
  same holds in every later state of the database in which the lookup finds the intent
  \<open>completed\<close>. This holds for credit purchases and for subscription purchases.
\<close>

theorem verify_twice_already_processed:
  "(verifyAndCreditTransaction cfg e d p s u = (Inr c, d') \<longrightarrow>
      verifyAndCreditTransaction cfg e2 d' p s2 u = (Inl AlreadyProcessed, d')) \<and>
   (verifyAndCreateSubscription cfg e d p s u = (Inr sid, d'') \<longrightarrow>
      verifyAndCreateSubscription cfg e2 d'' p s2 u = (Inl AlreadyProcessed, d'')) \<and>
   (isSolanaConfigured cfg \<and>
    find (\<lambda>r. st_id r = p \<and> st_user_id r = u) (solana_transactions d3) = Some row \<and>
    st_status row = ''completed'' \<longrightarrow>
      verifyAndCreditTransaction cfg e2 d3 p s2 u = (Inl AlreadyProcessed, d3)) \<and>
   (isSolanaConfigured cfg \<and>
    find (\<lambda>r. sst_id r = p \<and> sst_user_id r = u) (solana_subscription_transactions d3) = Some srow \<and>
    sst_status srow = ''completed'' \<longrightarrow>
      verifyAndCreateSubscription cfg e2 d3 p s2 u = (Inl AlreadyProcessed, d3))"
proof (intro conjI impI)
  assume a: "verifyAndCreditTransaction cfg e d p s u = (Inr c, d')"
  from credit_lookup_after_success [OF a] credit_configured [OF a]
  have "credit_precheck cfg d' p s2 u = Inl AlreadyProcessed"
    by (auto simp: credit_precheck_def)
  then show "verifyAndCreditTransaction cfg e2 d' p s2 u = (Inl AlreadyProcessed, d')"
    by (simp add: verifyAndCreditTransaction_def)
next
  assume a: "verifyAndCreateSubscription cfg e d p s u = (Inr sid, d'')"
  from subscription_lookup_after_success [OF a] subscription_configured [OF a]
  have "subscription_precheck cfg d'' p s2 u = Inl AlreadyProcessed"
    by (auto simp: subscription_precheck_def)
  then show "verifyAndCreateSubscription cfg e2 d'' p s2 u = (Inl AlreadyProcessed, d'')"
    by (simp add: verifyAndCreateSubscription_def)
next
  assume "isSolanaConfigured cfg \<and>
    find (\<lambda>r. st_id r = p \<and> st_user_id r = u) (solana_transactions d3) = Some row \<and>
    st_status row = ''completed''"
  then have "credit_precheck cfg d3 p s2 u = Inl AlreadyProcessed"
    by (simp add: credit_precheck_def)
  then show "verifyAndCreditTransaction cfg e2 d3 p s2 u = (Inl AlreadyProcessed, d3)"
    by (simp add: verifyAndCreditTransaction_def)
next
  assume "isSolanaConfigured cfg \<and>
    find (\<lambda>r. sst_id r = p \<and> sst_user_id r = u) (solana_subscription_transactions d3) = Some srow \<and>
    sst_status srow = ''completed''"
  then have "subscription_precheck cfg d3 p s2 u = Inl AlreadyProcessed"
    by (simp add: subscription_precheck_def)
  then show "verifyAndCreateSubscription cfg e2 d3 p s2 u = (Inl AlreadyProcessed, d3)"
    by (simp add: verifyAndCreateSubscription_def)
qed

text \<open>In the scenario, both purchases are verified once and refused the second time.\<close>

theorem verify_twice_already_processed_witness:
  "verifyAndCreditTransaction cfg0 env1 db1 ''p1'' sig1 ''u1'' = (Inl AlreadyProcessed, db1) \<and>
   verifyAndCreateSubscription cfg0 env1 db2 ''s1'' sig1 ''u1'' = (Inl AlreadyProcessed, db2)"
  using verify_twice_already_processed
    [where cfg = cfg0 and e = env0 and d = db0 and p = "''p1''" and s = sig1 and u = "''u1''"
       and c = 50 and d' = db1 and ?e2.0 = env1 and ?s2.0 = sig1]
    verify_twice_already_processed
    [where cfg = cfg0 and e = env0 and d = db0 and p = "''s1''" and s = sig1 and u = "''u1''"
       and sid = "''sub-2''" and d'' = db2 and ?e2.0 = env1 and ?s2.0 = sig1]
    credit_run0 subscription_run0
  by simp

subsection \<open>Failure and the database\<close>





subsection \<open>Ownership of an intent\<close>

text \<open>
  C7. The lookup of an intent is by payment id and owning user together. With the
  subsystem configured, when the rows with payment id \<open>p\<close> belong to user \<open>a\<close>, a
  verification call of any other user \<open>b\<close> with \<open>p\<close> fails with \<open>NotFound\<close>, the
  answer for an unknown id, and leaves the database unchanged; so an intent is never
  verified or credited for a user who does not own it. This holds for both kinds of
  purchase.
\<close>

theorem foreign_intent_not_found:
  "(isSolanaConfigured cfg \<and> b \<noteq> a \<and>
      (\<forall>r \<in> set (solana_transactions d). st_id r = p \<longrightarrow> st_user_id r = a) \<longrightarrow>
      verifyAndCreditTransaction cfg e d p s b = (Inl NotFound, d)) \<and>
   (isSolanaConfigured cfg \<and> b \<noteq> a \<and>
      (\<forall>r \<in> set (solana_subscription_transactions d). sst_id r = p \<longrightarrow> sst_user_id r = a) \<longrightarrow>
      verifyAndCreateSubscription cfg e d p s b = (Inl NotFound, d))"
proof (intro conjI impI)
  assume h: "isSolanaConfigured cfg \<and> b \<noteq> a \<and>
      (\<forall>r \<in> set (solana_transactions d). st_id r = p \<longrightarrow> st_user_id r = a)"
  then have "find (\<lambda>r. st_id r = p \<and> st_user_id r = b) (solana_transactions d) = None"
    by (auto simp: find_None_iff)
  with h show "verifyAndCreditTransaction cfg e d p s b = (Inl NotFound, d)"
    by (simp add: verifyAndCreditTransaction_def credit_precheck_def)
next
  assume h: "isSolanaConfigured cfg \<and> b \<noteq> a \<and>
      (\<forall>r \<in> set (solana_subscription_transactions d). sst_id r = p \<longrightarrow> sst_user_id r = a)"
  then have "find (\<lambda>r. sst_id r = p \<and> sst_user_id r = b) (solana_subscription_transactions d) = None"
    by (auto simp: find_None_iff)
  with h show "verifyAndCreateSubscription cfg e d p s b = (Inl NotFound, d)"
    by (simp add: verifyAndCreateSubscription_def subscription_precheck_def)
qed

text \<open>In the scenario, user \<open>u2\<close> presents the payment ids of \<open>u1\<close>.\<close>

theorem foreign_intent_not_found_witness:
  "verifyAndCreditTransaction cfg0 env0 db0 ''p1'' sig1 ''u2'' = (Inl NotFound, db0) \<and>
   verifyAndCreateSubscription cfg0 env0 db0 ''s1'' sig1 ''u2'' = (Inl NotFound, db0)"
proof -
  have 1: "\<forall>r \<in> set (solana_transactions db0). st_id r = ''p1'' \<longrightarrow> st_user_id r = ''u1''"
    by (simp add: db0_def credit_row0_def)
  have 2: "\<forall>r \<in> set (solana_subscription_transactions db0). sst_id r = ''s1'' \<longrightarrow> sst_user_id r = ''u1''"
    by (simp add: db0_def sub_row0_def)
  have 3: "''u2'' \<noteq> ''u1''" by simp
  from 1 2 3 configured0
    foreign_intent_not_found [where cfg = cfg0 and e = env0 and d = db0 and p = "''p1''"
      and s = sig1 and a = "''u1''" and b = "''u2''"]
    foreign_intent_not_found [where cfg = cfg0 and e = env0 and d = db0 and p = "''s1''"
      and s = sig1 and a = "''u1''" and b = "''u2''"]
  show ?thesis by blast
qed

subsection \<open>Price oracle\<close>




subsection \<open>Transaction history\<close>

lemma sorted_desc_take:
  "sorted_wrt (\<lambda>x y. f y \<le> (f x :: int)) xs \<Longrightarrow> sorted_wrt (\<lambda>x y. f y \<le> f x) (sql_limit n xs)"
  by (simp add: sql_limit_def sorted_wrt_take)

lemma sorted_desc_rev_sort:
  "sorted_wrt (\<lambda>x y. f y \<le> (f x :: int)) (rev (sort_key f xs))"
proof -
  have "sorted (map f (sort_key f xs))" by simp
  then have "sorted_wrt (\<lambda>x y. f x \<le> f y) (sort_key f xs)"
    by (simp add: sorted_map)
  then show ?thesis by (simp add: sorted_wrt_rev)
qed

lemma sql_limit_subset: "set (sql_limit n xs) \<subseteq> set xs"
  by (auto simp: sql_limit_def dest: in_set_takeD)

lemma sql_limit_length: "0 \<le> n \<Longrightarrow> length (sql_limit n xs) \<le> nat n"
  by (simp add: sql_limit_def)

lemma omitted_not_more_recent:
  assumes "sorted_wrt (\<lambda>x y. f y \<le> (f x :: int)) xs" "x \<in> set (sql_limit n xs)"
    "y \<in> set xs" "y \<notin> set (sql_limit n xs)"
  shows "f y \<le> f x"
proof (cases "n < 0")
  case True
  with assms show ?thesis by (simp add: sql_limit_def)
next
  case False
  with assms have x: "x \<in> set (take (nat n) xs)" and y: "y \<notin> set (take (nat n) xs)"
    by (simp_all add: sql_limit_def)
  from y assms(3) have "y \<in> set (drop (nat n) xs)"
    by (metis Un_iff append_take_drop_id set_append)
  moreover from assms(1) have "sorted_wrt (\<lambda>x y. f y \<le> f x) (take (nat n) xs @ drop (nat n) xs)"
    by simp
  then have "\<forall>a \<in> set (take (nat n) xs). \<forall>b \<in> set (drop (nat n) xs). f b \<le> f a"
    unfolding sorted_wrt_append by (elim conjE)
  ultimately show ?thesis using x by blast
qed

text \<open>
  C10. \<open>getUserTransactions\<close> returns rows of \<open>solana_transactions\<close> that belong to
  the requesting user and are \<open>completed\<close>, never a pending one; the rows are in
  descending order of \<open>created_at\<close>; with a limit \<open>n \<ge> 0\<close> there are at most \<open>n\<close>
  of them, and a completed row of the user that is left out is no more recent than any
  row returned. The default limit, which the route handler uses, is \<open>20\<close>.
\<close>

theorem history_completed_only:
  "(\<forall>r \<in> set (getUserTransactions d userId limit).
      r \<in> set (solana_transactions d) \<and> st_user_id r = userId \<and> st_status r = ''completed'' \<and>
      st_status r \<noteq> ''pending'') \<and>
   sorted_wrt (\<lambda>r r'. st_created_at r' \<le> st_created_at r) (getUserTransactions d userId limit) \<and>
   (0 \<le> limit \<longrightarrow> length (getUserTransactions d userId limit) \<le> nat limit) \<and>
   (\<forall>r \<in> set (solana_transactions d). \<forall>r' \<in> set (getUserTransactions d userId limit).
      st_user_id r = userId \<and> st_status r = ''completed'' \<and>
      r \<notin> set (getUserTransactions d userId limit) \<longrightarrow> st_created_at r \<le> st_created_at r') \<and>
   getUserTransactions_default d userId = getUserTransactions d userId 20 \<and>
   length (getUserTransactions_default d userId) \<le> 20"
proof -
  define ordered where "ordered =
    rev (sort_key st_created_at
      (filter (\<lambda>r. st_user_id r = userId \<and> st_status r = ''completed'') (solana_transactions d)))"
  have res: "getUserTransactions d userId limit = sql_limit limit ordered"
    by (simp add: getUserTransactions_def ordered_def)
  have mem: "r \<in> set ordered \<longleftrightarrow>
      r \<in> set (solana_transactions d) \<and> st_user_id r = userId \<and> st_status r = ''completed''" for r
    by (simp add: ordered_def)
  have s: "sorted_wrt (\<lambda>r r'. st_created_at r' \<le> st_created_at r) ordered"
    unfolding ordered_def by (rule sorted_desc_rev_sort)
  have 1: "\<forall>r \<in> set (getUserTransactions d userId limit).
      r \<in> set (solana_transactions d) \<and> st_user_id r = userId \<and> st_status r = ''completed'' \<and>
      st_status r \<noteq> ''pending''"
  proof
    fix r assume "r \<in> set (getUserTransactions d userId limit)"
    then have "r \<in> set ordered"
      unfolding res using sql_limit_subset [of limit ordered] by blast
    then show "r \<in> set (solana_transactions d) \<and> st_user_id r = userId \<and>
        st_status r = ''completed'' \<and> st_status r \<noteq> ''pending''"
      by (simp add: mem)
  qed
  have 2: "sorted_wrt (\<lambda>r r'. st_created_at r' \<le> st_created_at r) (getUserTransactions d userId limit)"
    unfolding res using s by (rule sorted_desc_take)
  have 3: "0 \<le> limit \<longrightarrow> length (getUserTransactions d userId limit) \<le> nat limit"
    unfolding res by (simp add: sql_limit_length)
  have 4: "\<forall>r \<in> set (solana_transactions d). \<forall>r' \<in> set (getUserTransactions d userId limit).
      st_user_id r = userId \<and> st_status r = ''completed'' \<and>
      r \<notin> set (getUserTransactions d userId limit) \<longrightarrow> st_created_at r \<le> st_created_at r'"
  proof (intro ballI impI)
    fix r r'
    assume r: "r \<in> set (solana_transactions d)" and r': "r' \<in> set (getUserTransactions d userId limit)"
      and h: "st_user_id r = userId \<and> st_status r = ''completed'' \<and>
        r \<notin> set (getUserTransactions d userId limit)"
    from r h have a: "r \<in> set ordered" by (simp add: mem)
    from r' have b: "r' \<in> set (sql_limit limit ordered)" unfolding res .
    from h have c: "r \<notin> set (sql_limit limit ordered)" unfolding res by blast
    from s b a c show "st_created_at r \<le> st_created_at r'"
      by (rule omitted_not_more_recent)
  qed
  have 5: "length (getUserTransactions_default d userId) \<le> 20"
    unfolding getUserTransactions_default_def getUserTransactions_def
    by (simp add: sql_limit_def)
  have 6: "getUserTransactions_default d userId = getUserTransactions d userId 20"
    by (simp only: getUserTransactions_default_def)
  from 1 2 3 4 6 5 show ?thesis
    by (intro conjI)
qed

text \<open>
  In the history of the scenario, \<open>u1\<close> sees the two completed purchases, the more
  recent first, and neither the pending purchase nor the purchase of \<open>u2\<close>.
\<close>

theorem history_completed_only_witness:
  "getUserTransactions_default history_db ''u1'' =
     [credit_row1\<lparr>st_id := ''p4'', st_transaction_signature := ''sig4'', st_created_at := 980\<rparr>,
      credit_row1] \<and>
   length (getUserTransactions_default history_db ''u1'') \<le> 20 \<and>
   sorted_wrt (\<lambda>r r'. st_created_at r' \<le> st_created_at r)
     (getUserTransactions history_db ''u1'' 20)"
proof -
  have "getUserTransactions history_db ''u1'' 20 =
     [credit_row1\<lparr>st_id := ''p4'', st_transaction_signature := ''sig4'', st_created_at := 980\<rparr>,
      credit_row1]"
    by (simp add: getUserTransactions_def sql_limit_def history_db_def history_rows_def
        credit_row1_def credit_row0_def)
  with history_completed_only [where d = history_db and userId = "''u1''" and limit = 20]
  show ?thesis by simp
qed

subsection \<open>Amount received\<close>

lemma findIndex_range: "findIndex P xs = -1 \<or> (0 \<le> findIndex P xs \<and> findIndex P xs < int (length xs))"
  by (induction xs) (auto simp: Let_def)

lemma findIndex_found: "(\<exists>x \<in> set xs. P x) \<longleftrightarrow> findIndex P xs \<noteq> -1"
proof (induction xs)
  case Nil
  then show ?case by simp
next
  case (Cons x xs)
  from findIndex_range [of P xs] Cons show ?case
    by (auto simp: Let_def)
qed

lemma check_transaction_amount:
  assumes noerr: "\<forall>m. meta tx = Some m \<longrightarrow> tm_err m = None"
    and key: "PublicKey cfg (SOLANA_TREASURY_WALLET cfg) = Inr treasury"
    and present: "treasury \<in> set (staticAccountKeys_or_accountKeys (tx_message tx))"
  shows "check_transaction cfg expectedAmount tx =
     (let received = received_amount tx
            (findIndex (\<lambda>key. key = treasury) (staticAccountKeys_or_accountKeys (tx_message tx)))
      in if real_of_int received < real_of_int expectedAmount - max (real_of_int expectedAmount * 0.01) 1000
         then Inl (AmountMismatch expectedAmount received) else Inr ())"
proof -
  from present have "findIndex (\<lambda>key. key = treasury) (staticAccountKeys_or_accountKeys (tx_message tx)) \<noteq> -1"
    using findIndex_found [of "staticAccountKeys_or_accountKeys (tx_message tx)" "\<lambda>key. key = treasury"]
    by blast
  moreover from noerr have "\<not> (case meta tx of None \<Rightarrow> False | Some m \<Rightarrow> tm_err m \<noteq> None)"
    by (simp split: option.splits)
  ultimately show ?thesis
    using key by (simp add: check_transaction_def Let_def tolerance_of_def)
qed

text \<open>
  C4. Let the polling have produced a record without an execution error that lists
  the treasury account, let \<open>treasuryIndex\<close> be its index and
  \<open>received = postBalances[treasuryIndex] - preBalances[treasuryIndex]\<close>, let
  \<open>expectedAmount\<close> be the intent's \<open>amount_lamports\<close> and
  \<open>tolerance = max(expectedAmount \<times> 0.01, 1000)\<close>. Then the verification fails with
  \<open>AmountMismatch\<close> exactly when \<open>received < expectedAmount - tolerance\<close>, and it
  the amount check passes exactly when \<open>received \<ge> expectedAmount - tolerance\<close>: at
  the boundary itself, and for every amount above. This holds for the check on the
  record and for both verification functions, which then succeed when none of the
  statements that follow throws.
\<close>

theorem amount_tolerance_boundary:
  assumes "\<forall>m. meta tx = Some m \<longrightarrow> tm_err m = None"
    and "PublicKey cfg (SOLANA_TREASURY_WALLET cfg) = Inr treasury"
    and "treasury \<in> set (staticAccountKeys_or_accountKeys (tx_message tx))"
    and "treasuryIndex = findIndex (\<lambda>key. key = treasury) (staticAccountKeys_or_accountKeys (tx_message tx))"
    and "received = received_amount tx treasuryIndex"
    and "tolerance = max (real_of_int expectedAmount * 0.01) 1000"
    and "poll_transaction (rpc e) s = Inr tx"
  shows
    "(\<forall>m. meta tx = Some m \<and> nat treasuryIndex < length (preBalances m) \<and>
          nat treasuryIndex < length (postBalances m) \<longrightarrow>
        received = postBalances m ! nat treasuryIndex - preBalances m ! nat treasuryIndex) \<and>
     (check_transaction cfg expectedAmount tx = Inl (AmountMismatch expectedAmount received)
        \<longleftrightarrow> real_of_int received < real_of_int expectedAmount - tolerance) \<and>
     (check_transaction cfg expectedAmount tx = Inr ()
        \<longleftrightarrow> real_of_int received \<ge> real_of_int expectedAmount - tolerance) \<and>
     (credit_precheck cfg d p s u = Inr pending \<and> st_amount_lamports pending = expectedAmount \<longrightarrow>
        (fst (verifyAndCreditTransaction cfg e d p s u) = Inl (AmountMismatch expectedAmount received)
           \<longleftrightarrow> real_of_int received < real_of_int expectedAmount - tolerance) \<and>
        ((\<forall>st. throws e st = None) \<longrightarrow>
           (fst (verifyAndCreditTransaction cfg e d p s u) = Inr (st_credits_purchased pending)
              \<longleftrightarrow> real_of_int received \<ge> real_of_int expectedAmount - tolerance))) \<and>
     (subscription_precheck cfg d p s u = Inr spending \<and> sst_amount_lamports spending = expectedAmount \<longrightarrow>
        (fst (verifyAndCreateSubscription cfg e d p s u) = Inl (AmountMismatch expectedAmount received)
           \<longleftrightarrow> real_of_int received < real_of_int expectedAmount - tolerance) \<and>
        ((\<forall>st. throws e st = None) \<longrightarrow>
           (fst (verifyAndCreateSubscription cfg e d p s u) = Inr (uuid_subscription e)
              \<longleftrightarrow> real_of_int received \<ge> real_of_int expectedAmount - tolerance)))"
proof -
  have chk: "check_transaction cfg expectedAmount tx =
      (if real_of_int received < real_of_int expectedAmount - tolerance
       then Inl (AmountMismatch expectedAmount received) else Inr ())"
    using check_transaction_amount [OF assms(1-3), of expectedAmount] assms(4-6)
    by (simp add: Let_def)
  have idx: "0 \<le> treasuryIndex"
    using findIndex_range [of "\<lambda>key. key = treasury" "staticAccountKeys_or_accountKeys (tx_message tx)"]
      findIndex_found [of "staticAccountKeys_or_accountKeys (tx_message tx)" "\<lambda>key. key = treasury"]
      assms(3,4) by auto
  have 1: "\<forall>m. meta tx = Some m \<and> nat treasuryIndex < length (preBalances m) \<and>
          nat treasuryIndex < length (postBalances m) \<longrightarrow>
        received = postBalances m ! nat treasuryIndex - preBalances m ! nat treasuryIndex"
    using idx by (simp add: assms(5) received_amount_def balance_at_def)
  have 2: "check_transaction cfg expectedAmount tx = Inl (AmountMismatch expectedAmount received)
        \<longleftrightarrow> real_of_int received < real_of_int expectedAmount - tolerance"
    by (simp add: chk)
  have 3: "check_transaction cfg expectedAmount tx = Inr ()
        \<longleftrightarrow> real_of_int received \<ge> real_of_int expectedAmount - tolerance"
    by (simp add: chk not_less)
  have 4: "credit_precheck cfg d p s u = Inr pending \<and> st_amount_lamports pending = expectedAmount \<longrightarrow>
        (fst (verifyAndCreditTransaction cfg e d p s u) = Inl (AmountMismatch expectedAmount received)
           \<longleftrightarrow> real_of_int received < real_of_int expectedAmount - tolerance) \<and>
        ((\<forall>st. throws e st = None) \<longrightarrow>
           (fst (verifyAndCreditTransaction cfg e d p s u) = Inr (st_credits_purchased pending)
              \<longleftrightarrow> real_of_int received \<ge> real_of_int expectedAmount - tolerance))"
  proof (intro impI conjI allI; elim conjE)
    assume pre: "credit_precheck cfg d p s u = Inr pending"
      and amt: "st_amount_lamports pending = expectedAmount"
    show "fst (verifyAndCreditTransaction cfg e d p s u) = Inl (AmountMismatch expectedAmount received)
           \<longleftrightarrow> real_of_int received < real_of_int expectedAmount - tolerance"
      by (cases "and_then (credit_commit e pending p s u d)
              (record_revenue cfg e u ''credit_purchase'' expectedAmount)")
        (auto simp: verifyAndCreditTransaction_def pre amt assms(7) chk return_or_catch_def
          caught_def split: option.splits)
    assume "\<forall>st. throws e st = None"
    then have "and_then (credit_commit e pending p s u d)
       (record_revenue cfg e u ''credit_purchase'' (st_amount_lamports pending))
       = (None, credit_effect cfg e pending p s u d)"
      by (simp add: credit_writes_None)
    then show "fst (verifyAndCreditTransaction cfg e d p s u) = Inr (st_credits_purchased pending)
           \<longleftrightarrow> real_of_int received \<ge> real_of_int expectedAmount - tolerance"
      by (simp add: verifyAndCreditTransaction_def pre amt assms(7) chk return_or_catch_def not_less)
  qed
  have 5: "subscription_precheck cfg d p s u = Inr spending \<and> sst_amount_lamports spending = expectedAmount \<longrightarrow>
        (fst (verifyAndCreateSubscription cfg e d p s u) = Inl (AmountMismatch expectedAmount received)
           \<longleftrightarrow> real_of_int received < real_of_int expectedAmount - tolerance) \<and>
        ((\<forall>st. throws e st = None) \<longrightarrow>
           (fst (verifyAndCreateSubscription cfg e d p s u) = Inr (uuid_subscription e)
              \<longleftrightarrow> real_of_int received \<ge> real_of_int expectedAmount - tolerance))"
  proof (intro impI conjI allI; elim conjE)
    assume pre: "subscription_precheck cfg d p s u = Inr spending"
      and amt: "sst_amount_lamports spending = expectedAmount"
    show "fst (verifyAndCreateSubscription cfg e d p s u) = Inl (AmountMismatch expectedAmount received)
           \<longleftrightarrow> real_of_int received < real_of_int expectedAmount - tolerance"
      by (cases "and_then (subscription_commit e spending p s u d)
              (record_revenue cfg e u ''sol_subscription'' expectedAmount)")
        (auto simp: verifyAndCreateSubscription_def pre amt assms(7) chk return_or_catch_def
          caught_def split: option.splits)
    assume nt: "\<forall>st. throws e st = None"
    show "fst (verifyAndCreateSubscription cfg e d p s u) = Inr (uuid_subscription e)
           \<longleftrightarrow> real_of_int received \<ge> real_of_int expectedAmount - tolerance"
      using subscription_writes_no_throw [OF nt, of spending p s u d cfg]
      by (simp add: verifyAndCreateSubscription_def pre amt assms(7) chk return_or_catch_def not_less)
  qed
  from 1 2 3 4 5 show ?thesis by (intro conjI)
qed

lemma poll_paying: "poll_transaction (rpc (env_paying amount)) s = Inr (tx_paying amount)"
  by (simp add: poll_transaction_def poll_loop.simps env_paying_def maxRetries_def)

lemma findIndex_paying:
  "findIndex (\<lambda>key. key = treasury0) (staticAccountKeys_or_accountKeys (tx_message (tx_paying amount))) = 1"
  by (simp add: tx_paying_def staticAccountKeys_or_accountKeys_def treasury0_def payer0_def)

text \<open>
  The intent \<open>p1\<close> expects 100 000 000 lamports, so the tolerance is 1 000 000:
  99 000 000 lamports received are accepted, 98 999 999 are refused.
\<close>

theorem amount_tolerance_boundary_witness:
  "fst (verifyAndCreditTransaction cfg0 (env_paying 99000000) db0 ''p1'' sig1 ''u1'') = Inr 50 \<and>
   fst (verifyAndCreditTransaction cfg0 (env_paying 98999999) db0 ''p1'' sig1 ''u1'') =
     Inl (AmountMismatch 100000000 98999999)"
proof -
  have noerr: "\<forall>m. meta (tx_paying a) = Some m \<longrightarrow> tm_err m = None" for a
    by (auto simp: tx_paying_def)
  have key: "PublicKey cfg0 (SOLANA_TREASURY_WALLET cfg0) = Inr treasury0"
    by (simp add: cfg0_def)
  have present: "treasury0 \<in> set (staticAccountKeys_or_accountKeys (tx_message (tx_paying a)))" for a
    by (simp add: tx_paying_def staticAccountKeys_or_accountKeys_def)
  have rcv: "a = received_amount (tx_paying a) 1" for a
    by (simp add: received_amount_def tx_paying_def balance_at_def)
  have tol: "(1000000 :: real) = max (real_of_int 100000000 * 0.01) 1000"
    by simp
  have amt: "st_amount_lamports credit_row0 = 100000000" "st_credits_purchased credit_row0 = 50"
    by (simp_all add: credit_row0_def)
  have nt: "\<forall>st. throws (env_paying a) st = None" for a
    by (simp add: env_paying_def env0_def)
  from amount_tolerance_boundary [OF noerr key present findIndex_paying [symmetric] rcv tol poll_paying,
      where d = db0 and p = "''p1''" and u = "''u1''" and pending = credit_row0] pre0 amt nt
  have "fst (verifyAndCreditTransaction cfg0 (env_paying 99000000) db0 ''p1'' sig1 ''u1'') = Inr 50"
    by simp
  moreover
  from amount_tolerance_boundary [OF noerr key present findIndex_paying [symmetric] rcv tol poll_paying,
      where d = db0 and p = "''p1''" and u = "''u1''" and pending = credit_row0] pre0 amt nt
  have "fst (verifyAndCreditTransaction cfg0 (env_paying 98999999) db0 ''p1'' sig1 ''u1'') =
     Inl (AmountMismatch 100000000 98999999)"
    by simp
  ultimately show ?thesis by simp
qed

subsection \<open>Subscriptions\<close>

lemma datetime_same_day: "(t - t mod 1000) div 86400000 = t div (86400000 :: int)"
proof -
  have "(t - t mod 1000) div 86400000 = ((t div 1000) * 1000) div (1000 * 86400)"
    by (simp add: minus_mod_eq_div_mult)
  also have "\<dots> = (t div 1000) div 86400"
    by simp
  also have "\<dots> = t div (1000 * 86400)"
    by (simp add: zdiv_zmult2_eq)
  finally show ?thesis by simp
qed

lemma datetime_time_of_day: "(t - t mod 1000) mod 86400000 \<le> t mod (86400000 :: int)"
proof -
  have "t - t mod 1000 = 86400000 * (t div 86400000) + (t - t mod 1000) mod 86400000"
    using datetime_same_day [of t] div_mult_mod_eq [of "t - t mod 1000" 86400000]
    by (simp add: mult.commute)
  moreover have "t = 86400000 * (t div 86400000) + t mod 86400000"
    by simp
  moreover have "0 \<le> t mod 1000" by simp
  ultimately show ?thesis by linarith
qed

lemma later_instant_later_text:
  assumes "t < instant x"
  shows "text_less (datetime t) x"
proof -
  have d: "t div 86400000 \<le> instant x div 86400000"
    using assms by (simp add: zdiv_mono1)
  show ?thesis
  proof (cases "t div 86400000 < instant x div 86400000")
    case True
    then show ?thesis
      by (simp add: text_less_def datetime_def ms_per_day_def datetime_same_day)
  next
    case False
    with d have eq: "t div 86400000 = instant x div 86400000" by simp
    have "t = 86400000 * (t div 86400000) + t mod 86400000"
      "instant x = 86400000 * (instant x div 86400000) + instant x mod 86400000"
      by simp_all
    with eq assms have "t mod 86400000 < instant x mod 86400000" by linarith
    with datetime_time_of_day [of t]
    have "(t - t mod 1000) mod 86400000 < instant x mod 86400000" by linarith
    with eq show ?thesis
      by (cases "stamp_format x")
        (simp_all add: text_less_def datetime_def ms_per_day_def datetime_same_day)
  qed
qed

lemma datetime_not_later: "instant (datetime t) \<le> t"
proof -
  have "0 \<le> t mod 1000" by simp
  then show ?thesis by (simp add: datetime_def)
qed

lemma renewal_pre: "subscription_precheck cfg0 renewal_db ''s1'' sig1 ''u1'' = Inr sub_row0"
  by (simp add: subscription_precheck_def configured0 renewal_db_def db0_def sub_row0_def sig1_def)

lemma renewal_effect:
  "user_subscriptions (subscription_effect cfg0 renewal_env sub_row0 ''s1'' sig1 ''u1'' renewal_db) =
     [morning_sub\<lparr>us_ends_at := Some (Stamp SqliteText 1793638800000)\<rparr>,
      noon_sub\<lparr>us_ends_at := Some (Stamp SqliteText 1793638800000)\<rparr>,
      renewed_sub]"
  by (simp add: user_subscriptions_after renewal_db_def renewal_env_def env0_def
      ends_at_null_or_later_def text_less_def datetime_def ms_per_day_def toISOString_def
      new_subscription_def thirty_days_def morning_sub_def noon_sub_def renewed_sub_def
      sub_row0_def Let_def)

lemma renewal_run:
  "verifyAndCreateSubscription cfg0 renewal_env renewal_db ''s1'' sig1 ''u1'' =
     (Inr ''sub-9'', subscription_effect cfg0 renewal_env sub_row0 ''s1'' sig1 ''u1'' renewal_db)"
proof -
  have p: "poll_transaction (rpc renewal_env) sig1 = Inr tx0"
    using poll0 by (simp add: renewal_env_def env0_def)
  have t: "\<forall>st. throws renewal_env st = None"
    by (simp add: renewal_env_def env0_def)
  have u: "uuid_subscription renewal_env = ''sub-9''"
    by (simp add: renewal_env_def)
  from subscription_run [OF renewal_pre p check_row0(2) t] show ?thesis
    by (simp only: u)
qed

text \<open>
  C6 as stated does not hold of the code. In the renewal of the scenario the new
  subscription ends thirty days and one millisecond after it starts, because
  \<open>startsAt\<close> and \<open>endsAt\<close> come from two reads of the clock. And the two subscriptions
  that had ended that morning and at noon, one before the other began, are both given
  the end 17:00:00, because their ISO text compares greater than the
  \<open>datetime('now')\<close> text of the same day; after the call they overlap.
\<close>

theorem renewal_gap_and_reopened_rows:
  "fst (verifyAndCreateSubscription cfg0 renewal_env renewal_db ''s1'' sig1 ''u1'') = Inr ''sub-9'' \<and>
   user_subscriptions renewal_db = [morning_sub, noon_sub] \<and>
   us_ends_at morning_sub = Some (Stamp IsoText 1793613600000) \<and>
   us_starts_at noon_sub = Stamp IsoText 1793617200000 \<and>
   user_subscriptions (snd (verifyAndCreateSubscription cfg0 renewal_env renewal_db ''s1'' sig1 ''u1'')) =
     [morning_sub\<lparr>us_ends_at := Some (Stamp SqliteText 1793638800000)\<rparr>,
      noon_sub\<lparr>us_ends_at := Some (Stamp SqliteText 1793638800000)\<rparr>,
      renewed_sub] \<and>
   us_starts_at renewed_sub = Stamp IsoText 1793638800250 \<and>
   us_ends_at renewed_sub = Some (Stamp IsoText 1796230800251) \<and>
   (1796230800251 :: int) \<noteq> 1793638800250 + 30 * 24 * 60 * 60 * 1000 \<and>
   (1793613600000 :: int) < clock_end_subscriptions renewal_env \<and>
   (1793617200000 :: int) < 1793638800000"
  by (simp add: renewal_run renewal_effect)
    (simp add: renewal_db_def morning_sub_def noon_sub_def renewed_sub_def renewal_env_def)

text \<open>
  C6, as the code has it. When a subscription purchase is verified, exactly one row is
  added to \<open>user_subscriptions\<close>: the new subscription of the user, with \<open>startsAt\<close>
  the clock as \<open>new Date()\<close> reads it and \<open>endsAt\<close> the clock as \<open>Date.now()\<close> reads
  it plus thirty days, so thirty days after its start plus the time between the two
  reads. Every subscription of the user that was open (\<open>ends_at\<close> \<open>NULL\<close> or later than
  the clock of the update) gets \<open>datetime('now')\<close> as its \<open>ends_at\<close>, which is not
  later than now. The rows of other users are left as they are, and no row is changed
  otherwise than in its \<open>ends_at\<close>, set to that value. After the call every earlier
  row of the user ends no later than now; so if the clock has not gone back between
  that update and \<open>new Date()\<close>, none of them extends beyond the start of the new
  subscription.
\<close>

theorem subscription_closes_and_opens:
  assumes "verifyAndCreateSubscription cfg e d p s u = (Inr sid, d')"
  shows
    "length (user_subscriptions d') = length (user_subscriptions d) + 1 \<and>
     (\<forall>i < length (user_subscriptions d).
        (us_user_id (user_subscriptions d ! i) = u \<and>
         (us_ends_at (user_subscriptions d ! i) = None \<or>
          (\<exists>x. us_ends_at (user_subscriptions d ! i) = Some x \<and>
               clock_end_subscriptions e < instant x)) \<longrightarrow>
           user_subscriptions d' ! i =
             (user_subscriptions d ! i)\<lparr>us_ends_at := Some (datetime (clock_end_subscriptions e))\<rparr>) \<and>
        (us_user_id (user_subscriptions d ! i) \<noteq> u \<longrightarrow>
           user_subscriptions d' ! i = user_subscriptions d ! i) \<and>
        (user_subscriptions d' ! i = user_subscriptions d ! i \<or>
         user_subscriptions d' ! i =
           (user_subscriptions d ! i)\<lparr>us_ends_at := Some (datetime (clock_end_subscriptions e))\<rparr>) \<and>
        (us_user_id (user_subscriptions d' ! i) = u \<longrightarrow>
           (\<exists>x. us_ends_at (user_subscriptions d' ! i) = Some x \<and>
                instant x \<le> clock_end_subscriptions e))) \<and>
     instant (datetime (clock_end_subscriptions e)) \<le> clock_end_subscriptions e \<and>
     us_id (last (user_subscriptions d')) = sid \<and>
     us_user_id (last (user_subscriptions d')) = u \<and>
     us_starts_at (last (user_subscriptions d')) = toISOString (clock_new_Date e) \<and>
     us_ends_at (last (user_subscriptions d')) =
       Some (toISOString (clock_Date_now e + 30 * 24 * 60 * 60 * 1000)) \<and>
     instant (toISOString (clock_Date_now e + 30 * 24 * 60 * 60 * 1000)) =
       instant (toISOString (clock_new_Date e)) + 30 * 24 * 60 * 60 * 1000 +
         (clock_Date_now e - clock_new_Date e) \<and>
     (clock_end_subscriptions e \<le> clock_new_Date e \<longrightarrow>
        (\<forall>i < length (user_subscriptions d).
           us_user_id (user_subscriptions d' ! i) = u \<longrightarrow>
             (\<exists>x. us_ends_at (user_subscriptions d' ! i) = Some x \<and>
                  instant x \<le> instant (us_starts_at (last (user_subscriptions d'))))))"
proof -
  from subscription_success [OF assms] obtain pending where
    sid: "sid = uuid_subscription e" and
    d': "d' = subscription_effect cfg e pending p s u d"
    by blast
  define t where "t = clock_end_subscriptions e"
  define close where "close = (\<lambda>s. if us_user_id s = u \<and> ends_at_null_or_later t s
      then s\<lparr>us_ends_at := Some (datetime t)\<rparr> else s)"
  define new where "new = new_subscription e u (sst_product_id pending)"
  have subs: "user_subscriptions d' = map close (user_subscriptions d) @ [new]"
    by (simp add: d' user_subscriptions_after close_def new_def t_def)
  have opn: "ends_at_null_or_later t x"
    if "us_ends_at x = None \<or> (\<exists>y. us_ends_at x = Some y \<and> t < instant y)" for x
    using that by (auto simp: ends_at_null_or_later_def later_instant_later_text split: option.splits)
  have lst: "last (user_subscriptions d') = new"
    by (simp add: subs)
  have nth: "user_subscriptions d' ! i = close (user_subscriptions d ! i)"
    if "i < length (user_subscriptions d)" for i
    using that by (simp add: subs nth_append)
  have closed: "\<exists>y. us_ends_at (close x) = Some y \<and> instant y \<le> t" if "us_user_id (close x) = u" for x
  proof (cases "us_user_id x = u \<and> ends_at_null_or_later t x")
    case True
    then show ?thesis by (simp add: close_def datetime_not_later)
  next
    case False
    with that have n: "\<not> ends_at_null_or_later t x" and c: "close x = x"
      by (auto simp: close_def)
    from n obtain y where y: "us_ends_at x = Some y" and "\<not> text_less (datetime t) y"
      by (auto simp: ends_at_null_or_later_def split: option.splits)
    then have "\<not> t < instant y" using later_instant_later_text by blast
    with y c show ?thesis by simp
  qed
  have 1: "length (user_subscriptions d') = length (user_subscriptions d) + 1"
    by (simp add: subs)
  have 2: "\<forall>i < length (user_subscriptions d).
        (us_user_id (user_subscriptions d ! i) = u \<and>
         (us_ends_at (user_subscriptions d ! i) = None \<or>
          (\<exists>x. us_ends_at (user_subscriptions d ! i) = Some x \<and> t < instant x)) \<longrightarrow>
           user_subscriptions d' ! i = (user_subscriptions d ! i)\<lparr>us_ends_at := Some (datetime t)\<rparr>) \<and>
        (us_user_id (user_subscriptions d ! i) \<noteq> u \<longrightarrow>
           user_subscriptions d' ! i = user_subscriptions d ! i) \<and>
        (user_subscriptions d' ! i = user_subscriptions d ! i \<or>
         user_subscriptions d' ! i = (user_subscriptions d ! i)\<lparr>us_ends_at := Some (datetime t)\<rparr>) \<and>
        (us_user_id (user_subscriptions d' ! i) = u \<longrightarrow>
           (\<exists>x. us_ends_at (user_subscriptions d' ! i) = Some x \<and> instant x \<le> t))"
  proof (intro allI impI)
    fix i assume i: "i < length (user_subscriptions d)"
    define old where "old = user_subscriptions d ! i"
    have a: "us_user_id old = u \<and>
         (us_ends_at old = None \<or> (\<exists>x. us_ends_at old = Some x \<and> t < instant x)) \<longrightarrow>
           close old = old\<lparr>us_ends_at := Some (datetime t)\<rparr>"
      using opn [of old] by (simp add: close_def)
    have b: "us_user_id old \<noteq> u \<longrightarrow> close old = old"
      by (simp add: close_def)
    have c: "close old = old \<or> close old = old\<lparr>us_ends_at := Some (datetime t)\<rparr>"
      by (simp add: close_def)
    have e: "us_user_id (close old) = u \<longrightarrow>
           (\<exists>x. us_ends_at (close old) = Some x \<and> instant x \<le> t)"
      using closed [of old] by blast
    from a b c e show "(us_user_id (user_subscriptions d ! i) = u \<and>
         (us_ends_at (user_subscriptions d ! i) = None \<or>
          (\<exists>x. us_ends_at (user_subscriptions d ! i) = Some x \<and> t < instant x)) \<longrightarrow>
           user_subscriptions d' ! i = (user_subscriptions d ! i)\<lparr>us_ends_at := Some (datetime t)\<rparr>) \<and>
        (us_user_id (user_subscriptions d ! i) \<noteq> u \<longrightarrow>
           user_subscriptions d' ! i = user_subscriptions d ! i) \<and>
        (user_subscriptions d' ! i = user_subscriptions d ! i \<or>
         user_subscriptions d' ! i = (user_subscriptions d ! i)\<lparr>us_ends_at := Some (datetime t)\<rparr>) \<and>
        (us_user_id (user_subscriptions d' ! i) = u \<longrightarrow>
           (\<exists>x. us_ends_at (user_subscriptions d' ! i) = Some x \<and> instant x \<le> t))"
      unfolding nth [OF i] old_def [symmetric] by (intro conjI)
  qed
  have 3: "instant (datetime t) \<le> t" by (rule datetime_not_later)
  have 4: "us_id (last (user_subscriptions d')) = sid"
    "us_user_id (last (user_subscriptions d')) = u"
    "us_starts_at (last (user_subscriptions d')) = toISOString (clock_new_Date e)"
    "us_ends_at (last (user_subscriptions d')) =
       Some (toISOString (clock_Date_now e + 30 * 24 * 60 * 60 * 1000))"
    by (simp_all add: lst new_def new_subscription_def Let_def sid thirty_days_def)
  have 5: "instant (toISOString (clock_Date_now e + 30 * 24 * 60 * 60 * 1000)) =
       instant (toISOString (clock_new_Date e)) + 30 * 24 * 60 * 60 * 1000 +
         (clock_Date_now e - clock_new_Date e)"
    by (simp add: toISOString_def)
  have 6: "t \<le> clock_new_Date e \<longrightarrow>
        (\<forall>i < length (user_subscriptions d).
           us_user_id (user_subscriptions d' ! i) = u \<longrightarrow>
             (\<exists>x. us_ends_at (user_subscriptions d' ! i) = Some x \<and>
                  instant x \<le> instant (us_starts_at (last (user_subscriptions d')))))"
  proof (intro impI allI)
    fix i assume le: "t \<le> clock_new_Date e" and i: "i < length (user_subscriptions d)"
      and u: "us_user_id (user_subscriptions d' ! i) = u"
    from 2 i u obtain x where "us_ends_at (user_subscriptions d' ! i) = Some x" "instant x \<le> t"
      by blast
    with le show "\<exists>x. us_ends_at (user_subscriptions d' ! i) = Some x \<and>
                  instant x \<le> instant (us_starts_at (last (user_subscriptions d')))"
      by (simp add: 4 toISOString_def)
  qed
  from 1 2 3 4 5 6 show ?thesis
    unfolding t_def by (intro conjI)
qed

text \<open>
  In the scenario the open subscription of \<open>u1\<close> is closed at the clock of the update
  and one row is added; in the renewal the new subscription starts at 17:00:00.250 and
  ends thirty days after 17:00:00.251.
\<close>

theorem subscription_closes_and_opens_witness:
  "length (user_subscriptions db2) = 2 \<and>
   user_subscriptions db2 ! 0 = old_sub0\<lparr>us_ends_at := Some (Stamp SqliteText 1000)\<rparr> \<and>
   us_starts_at (last (user_subscriptions
      (subscription_effect cfg0 renewal_env sub_row0 ''s1'' sig1 ''u1'' renewal_db))) =
     Stamp IsoText 1793638800250 \<and>
   us_ends_at (last (user_subscriptions
      (subscription_effect cfg0 renewal_env sub_row0 ''s1'' sig1 ''u1'' renewal_db))) =
     Some (Stamp IsoText 1796230800251)"
proof -
  have f: "user_subscriptions db0 = [old_sub0]" "us_user_id old_sub0 = ''u1''"
    "us_ends_at old_sub0 = None"
    "datetime (clock_end_subscriptions env0) = Stamp SqliteText 1000"
    by (simp_all add: db0_def old_sub0_def env0_def datetime_def)
  have g: "toISOString (clock_new_Date renewal_env) = Stamp IsoText 1793638800250"
    "toISOString (clock_Date_now renewal_env + 30 * 24 * 60 * 60 * 1000) = Stamp IsoText 1796230800251"
    by (simp_all add: renewal_env_def toISOString_def)
  from subscription_closes_and_opens [OF subscription_run0] f
  have 1: "length (user_subscriptions db2) = 2 \<and>
      user_subscriptions db2 ! 0 = old_sub0\<lparr>us_ends_at := Some (Stamp SqliteText 1000)\<rparr>"
    by simp
  from subscription_closes_and_opens [OF renewal_run] g
  have 2: "us_starts_at (last (user_subscriptions
      (subscription_effect cfg0 renewal_env sub_row0 ''s1'' sig1 ''u1'' renewal_db))) =
     Stamp IsoText 1793638800250 \<and>
   us_ends_at (last (user_subscriptions
      (subscription_effect cfg0 renewal_env sub_row0 ''s1'' sig1 ''u1'' renewal_db))) =
     Some (Stamp IsoText 1796230800251)"
    by simp
  from 1 2 show ?thesis by simp
qed

subsection \<open>On-chain error during polling\<close>

lemma poll_loop_continues:
  assumes "continues conn s j" "j < maxRetries"
  shows "\<exists>tx'. poll_loop conn s j tx = poll_loop conn s (j + 1) tx'"
  using assms
  by (subst poll_loop.simps) (auto simp: continues_def split: sum.splits option.splits)

lemma poll_loop_reaches:
  assumes "\<forall>j < k. continues conn s j" "k \<le> maxRetries"
  shows "\<exists>tx'. poll_loop conn s 0 None = poll_loop conn s k tx'"
  using assms
proof (induction k)
  case 0
  then show ?case by blast
next
  case (Suc k)
  then obtain tx' where "poll_loop conn s 0 None = poll_loop conn s k tx'"
    by auto
  moreover from Suc.prems have "continues conn s k" "k < maxRetries" by auto
  from poll_loop_continues [OF this, of tx']
  obtain tx'' where "poll_loop conn s k tx' = poll_loop conn s (k + 1) tx''" by blast
  ultimately show ?case by auto
qed

lemma poll_loop_error_status:
  assumes "getSignatureStatus conn s k = Inr (Some (Some err))" "k < maxRetries"
  shows "poll_loop conn s k tx = Inl OnChainFailure"
  using assms by (subst poll_loop.simps) simp

text \<open>
  C8. If the iterations before iteration \<open>k\<close> of the bounded loop go on polling and
  the status request of iteration \<open>k\<close> reports an on-chain error, the loop returns
  \<open>OnChainFailure\<close> from that iteration. The outcome is the same for every chain that
  answers alike up to the status request of iteration \<open>k\<close>, whatever it would answer
  afterwards: no later request is made. A verification call that has passed the
  checks on the intent returns \<open>OnChainFailure\<close> with the database unchanged, for
  both kinds of purchase.
\<close>

theorem on_chain_error_stops_polling:
  assumes "k < maxRetries"
    and "\<forall>j < k. continues conn s j"
    and "getSignatureStatus conn s k = Inr (Some (Some err))"
  shows
    "poll_loop conn s 0 None = Inl OnChainFailure \<and>
     (\<forall>conn' :: chain. (\<forall>j \<le> k. getSignatureStatus conn' s j = getSignatureStatus conn s j) \<and>
              (\<forall>j < k. \<forall>c. getTransaction conn' s c j = getTransaction conn s c j) \<longrightarrow>
          poll_loop conn' s 0 None = Inl OnChainFailure) \<and>
     (rpc e = conn \<and> credit_precheck cfg d p s u = Inr pending \<longrightarrow>
        verifyAndCreditTransaction cfg e d p s u = (Inl OnChainFailure, d)) \<and>
     (rpc e = conn \<and> subscription_precheck cfg d p s u = Inr spending \<longrightarrow>
        verifyAndCreateSubscription cfg e d p s u = (Inl OnChainFailure, d))"
proof -
  have gen: "poll_loop c s 0 None = Inl OnChainFailure"
    if "\<forall>j < k. continues c s j" "getSignatureStatus c s k = Inr (Some (Some err))" for c
  proof -
    from poll_loop_reaches [OF that(1)] assms(1)
    obtain tx' where "poll_loop c s 0 None = poll_loop c s k tx'" by auto
    with poll_loop_error_status [OF that(2) assms(1)] show ?thesis by simp
  qed
  have 1: "poll_loop conn s 0 None = Inl OnChainFailure"
    using assms(2,3) by (rule gen)
  have 2: "\<forall>conn' :: chain. (\<forall>j \<le> k. getSignatureStatus conn' s j = getSignatureStatus conn s j) \<and>
              (\<forall>j < k. \<forall>c. getTransaction conn' s c j = getTransaction conn s c j) \<longrightarrow>
          poll_loop conn' s 0 None = Inl OnChainFailure"
  proof (intro allI impI)
    fix conn' :: chain
    assume h: "(\<forall>j \<le> k. getSignatureStatus conn' s j = getSignatureStatus conn s j) \<and>
              (\<forall>j < k. \<forall>c. getTransaction conn' s c j = getTransaction conn s c j)"
    then have "\<forall>j < k. continues conn' s j = continues conn s j"
      by (simp add: continues_def cong: sum.case_cong option.case_cong)
    with assms(2) have "\<forall>j < k. continues conn' s j" by simp
    moreover from h assms(3) have "getSignatureStatus conn' s k = Inr (Some (Some err))" by simp
    ultimately show "poll_loop conn' s 0 None = Inl OnChainFailure" by (rule gen)
  qed
  from 1 have pt: "poll_transaction conn s = Inl OnChainFailure"
    by (simp add: poll_transaction_def)
  have 3: "rpc e = conn \<and> credit_precheck cfg d p s u = Inr pending \<longrightarrow>
        verifyAndCreditTransaction cfg e d p s u = (Inl OnChainFailure, d)"
  proof (intro impI, elim conjE)
    assume r: "rpc e = conn" and pre: "credit_precheck cfg d p s u = Inr pending"
    show "verifyAndCreditTransaction cfg e d p s u = (Inl OnChainFailure, d)"
      unfolding verifyAndCreditTransaction_def pre r pt by simp
  qed
  have 4: "rpc e = conn \<and> subscription_precheck cfg d p s u = Inr spending \<longrightarrow>
        verifyAndCreateSubscription cfg e d p s u = (Inl OnChainFailure, d)"
  proof (intro impI, elim conjE)
    assume r: "rpc e = conn" and pre: "subscription_precheck cfg d p s u = Inr spending"
    show "verifyAndCreateSubscription cfg e d p s u = (Inl OnChainFailure, d)"
      unfolding verifyAndCreateSubscription_def pre r pt by simp
  qed
  from 1 2 3 4 show ?thesis by (intro conjI)
qed

text \<open>
  On the failing chain of the scenario the error shows at the third attempt; the
  finalized record that the fourth attempt would have found is never asked for.
\<close>

theorem on_chain_error_stops_polling_witness:
  "verifyAndCreditTransaction cfg0 (env0\<lparr>rpc := chain_failing\<rparr>) db0 ''p1'' sig1 ''u1'' =
     (Inl OnChainFailure, db0) \<and>
   verifyAndCreateSubscription cfg0 (env0\<lparr>rpc := chain_failing\<rparr>) db0 ''s1'' sig1 ''u1'' =
     (Inl OnChainFailure, db0)"
proof -
  have k: "2 < maxRetries" by (simp add: maxRetries_def)
  have c: "\<forall>j < 2. continues chain_failing sig1 j"
    by (simp add: continues_def chain_failing_def)
  have st: "getSignatureStatus chain_failing sig1 2 = Inr (Some (Some ''InstructionError''))"
    by (simp add: chain_failing_def)
  have r: "rpc (env0\<lparr>rpc := chain_failing\<rparr>) = chain_failing" by simp
  from on_chain_error_stops_polling [OF k c st, where e = "env0\<lparr>rpc := chain_failing\<rparr>"
      and cfg = cfg0 and d = db0 and p = "''p1''" and u = "''u1''" and pending = credit_row0] r pre0
  have 1: "verifyAndCreditTransaction cfg0 (env0\<lparr>rpc := chain_failing\<rparr>) db0 ''p1'' sig1 ''u1'' =
     (Inl OnChainFailure, db0)" by blast
  from on_chain_error_stops_polling [OF k c st, where e = "env0\<lparr>rpc := chain_failing\<rparr>"
      and cfg = cfg0 and d = db0 and p = "''s1''" and u = "''u1''" and spending = sub_row0] r spre0
  have 2: "verifyAndCreateSubscription cfg0 (env0\<lparr>rpc := chain_failing\<rparr>) db0 ''s1'' sig1 ''u1'' =
     (Inl OnChainFailure, db0)" by blast
  from 1 2 show ?thesis by simp
qed

subsection \<open>Signature replay\<close>




subsection \<open>The finalizing write\<close>

text \<open>
  C2 as stated, with a write guarded by the current status, does not hold of the code.
  The update that completes an intent has the condition \<open>WHERE id = ?\<close> and no
  condition on the status. Applied to the completed rows of the scenario it
  overwrites their signature and \<open>verified_at\<close>. And in the interleaving of two calls
  for the intent \<open>p1\<close> both calls succeed and the 50 credits are added twice.
\<close>

theorem finalize_ignores_status:
  "solana_transactions db1 = [credit_row1] \<and> st_status credit_row1 = ''completed'' \<and>
   solana_transactions (credit_finalize 2000 ''other'' ''p1'' db1) =
     [credit_row1\<lparr>st_transaction_signature := ''other'', st_verified_at := Some 2000\<rparr>] \<and>
   solana_transactions (credit_finalize 2000 ''other'' ''p1'' db1) \<noteq> solana_transactions db1 \<and>
   solana_subscription_transactions db2 = [sub_row1] \<and> sst_status sub_row1 = ''completed'' \<and>
   solana_subscription_transactions (subscription_finalize 2000 ''other'' ''sub-3'' ''s1'' db2) =
     [sub_row1\<lparr>sst_transaction_signature := ''other'', sst_verified_at := Some 2000,
               sst_subscription_id := Some ''sub-3''\<rparr>] \<and>
   solana_subscription_transactions (subscription_finalize 2000 ''other'' ''sub-3'' ''s1'' db2) \<noteq>
     solana_subscription_transactions db2 \<and>
   (\<exists>d'. interleaved_credit_verifications cfg0 env0 (env0\<lparr>now := 1001, uuid_revenue := ''rev-2''\<rparr>)
           db0 ''p1'' sig1 ''u1'' = Some (Inr 50, Inr 50, d') \<and>
         credit_ledger d' =
           [\<lparr>ce_user_id = ''u1'', ce_amount = 50, ce_type = ''purchased'', ce_description = ''SOL payment''\<rparr>,
            \<lparr>ce_user_id = ''u1'', ce_amount = 50, ce_type = ''purchased'', ce_description = ''SOL payment''\<rparr>])"
proof -
  have 1: "solana_transactions db1 = [credit_row1] \<and> st_status credit_row1 = ''completed''"
    by (simp add: db1_def credit_row1_def)
  have 2: "solana_transactions (credit_finalize 2000 ''other'' ''p1'' db1) =
     [credit_row1\<lparr>st_transaction_signature := ''other'', st_verified_at := Some 2000\<rparr>]"
    by (simp add: credit_finalize_def db1_def credit_row1_def credit_row0_def)
  have 3: "solana_transactions (credit_finalize 2000 ''other'' ''p1'' db1) \<noteq> solana_transactions db1"
    unfolding 2 by (simp add: db1_def credit_row1_def credit_row0_def)
  have 4: "solana_subscription_transactions db2 = [sub_row1] \<and> sst_status sub_row1 = ''completed''"
    by (simp add: db2_def sub_row1_def)
  have 5: "solana_subscription_transactions (subscription_finalize 2000 ''other'' ''sub-3'' ''s1'' db2) =
     [sub_row1\<lparr>sst_transaction_signature := ''other'', sst_verified_at := Some 2000,
               sst_subscription_id := Some ''sub-3''\<rparr>]"
    by (simp add: subscription_finalize_def db2_def sub_row1_def sub_row0_def)
  have 6: "solana_subscription_transactions (subscription_finalize 2000 ''other'' ''sub-3'' ''s1'' db2) \<noteq>
     solana_subscription_transactions db2"
    unfolding 5 by (simp add: db2_def sub_row1_def sub_row0_def)
  have p: "poll_transaction (rpc (env0\<lparr>now := 1001, uuid_revenue := ''rev-2''\<rparr>)) sig1 = Inr tx0"
    "poll_transaction (rpc env0) sig1 = Inr tx0"
    using poll0 by (simp_all add: env0_def)
  have c: "check_transaction cfg0 (st_amount_lamports credit_row0) tx0 = Inr ()"
    using check0 by (simp add: credit_row0_def)
  have 7: "\<exists>d'. interleaved_credit_verifications cfg0 env0 (env0\<lparr>now := 1001, uuid_revenue := ''rev-2''\<rparr>)
           db0 ''p1'' sig1 ''u1'' = Some (Inr 50, Inr 50, d') \<and>
         credit_ledger d' =
           [\<lparr>ce_user_id = ''u1'', ce_amount = 50, ce_type = ''purchased'', ce_description = ''SOL payment''\<rparr>,
            \<lparr>ce_user_id = ''u1'', ce_amount = 50, ce_type = ''purchased'', ce_description = ''SOL payment''\<rparr>]"
    unfolding interleaved_credit_verifications_def pre0 p
    by (simp add: c) (simp add: Let_def record_revenue_def insert_revenue_event_def
        credit_commit_def and_then_def exec_def addCredits_def credit_finalize_def
        credit_row0_def db0_def env0_def)
  from 1 2 3 4 5 6 7 show ?thesis by (intro conjI) simp_all
qed

text \<open>
  C2, as the code has it. The write that finalizes an intent is keyed by the payment
  id alone: every row with that id gets the status \<open>completed\<close>, the signature and
  \<open>verified_at\<close>, whatever its status was, and every other row is left as it is.
  The status is tested when the call reads the intent: a call that succeeds has read
  the intent as not completed, and its write to the ledger is that update.
\<close>

theorem finalize_keyed_by_id:
  "(\<forall>i < length (solana_transactions d).
      solana_transactions (credit_finalize t s p d) ! i =
        (if st_id (solana_transactions d ! i) = p
         then (solana_transactions d ! i)\<lparr>st_transaction_signature := s, st_status := ''completed'',
                st_verified_at := Some t\<rparr>
         else solana_transactions d ! i)) \<and>
   (\<forall>i < length (solana_subscription_transactions d).
      solana_subscription_transactions (subscription_finalize t s sid p d) ! i =
        (if sst_id (solana_subscription_transactions d ! i) = p
         then (solana_subscription_transactions d ! i)\<lparr>sst_transaction_signature := s,
                sst_status := ''completed'', sst_verified_at := Some t,
                sst_subscription_id := Some sid\<rparr>
         else solana_subscription_transactions d ! i)) \<and>
   (verifyAndCreditTransaction cfg e d p s u = (Inr c, d') \<longrightarrow>
      (\<exists>pending. find (\<lambda>r. st_id r = p \<and> st_user_id r = u) (solana_transactions d) = Some pending \<and>
         st_status pending \<noteq> ''completed'') \<and>
      solana_transactions d' = solana_transactions (credit_finalize (now e) s p d)) \<and>
   (verifyAndCreateSubscription cfg e d p s u = (Inr sid', d'') \<longrightarrow>
      (\<exists>pending. find (\<lambda>r. sst_id r = p \<and> sst_user_id r = u) (solana_subscription_transactions d) = Some pending \<and>
         sst_status pending \<noteq> ''completed'') \<and>
      solana_subscription_transactions d'' =
        solana_subscription_transactions (subscription_finalize (now e) s sid' p d))"
proof (intro conjI impI allI)
  fix i assume "i < length (solana_transactions d)"
  then show "solana_transactions (credit_finalize t s p d) ! i =
        (if st_id (solana_transactions d ! i) = p
         then (solana_transactions d ! i)\<lparr>st_transaction_signature := s, st_status := ''completed'',
                st_verified_at := Some t\<rparr>
         else solana_transactions d ! i)"
    by (simp add: credit_finalize_def)
next
  fix i assume "i < length (solana_subscription_transactions d)"
  then show "solana_subscription_transactions (subscription_finalize t s sid p d) ! i =
        (if sst_id (solana_subscription_transactions d ! i) = p
         then (solana_subscription_transactions d ! i)\<lparr>sst_transaction_signature := s,
                sst_status := ''completed'', sst_verified_at := Some t,
                sst_subscription_id := Some sid\<rparr>
         else solana_subscription_transactions d ! i)"
    by (simp add: subscription_finalize_def)
next
  assume a: "verifyAndCreditTransaction cfg e d p s u = (Inr c, d')"
  from credit_success [OF a]
  show "\<exists>pending. find (\<lambda>r. st_id r = p \<and> st_user_id r = u) (solana_transactions d) = Some pending \<and>
         st_status pending \<noteq> ''completed''"
    by (auto simp: credit_precheck_Inr)
  from credit_success [OF a]
  show "solana_transactions d' = solana_transactions (credit_finalize (now e) s p d)"
    by (auto simp: solana_transactions_after_credit)
next
  assume a: "verifyAndCreateSubscription cfg e d p s u = (Inr sid', d'')"
  from subscription_success [OF a]
  show "\<exists>pending. find (\<lambda>r. sst_id r = p \<and> sst_user_id r = u) (solana_subscription_transactions d) = Some pending \<and>
         sst_status pending \<noteq> ''completed''"
    by (auto simp: subscription_precheck_Inr)
  from subscription_success [OF a]
  show "solana_subscription_transactions d'' =
        solana_subscription_transactions (subscription_finalize (now e) s sid' p d)"
    by (auto simp: sst_after_subscription subscription_finalize_def)
qed

theorem finalize_keyed_by_id_witness:
  "solana_transactions (credit_finalize 2000 ''other'' ''p1'' db1) ! 0 =
     credit_row1\<lparr>st_transaction_signature := ''other'', st_status := ''completed'',
                 st_verified_at := Some 2000\<rparr> \<and>
   solana_subscription_transactions (subscription_finalize 2000 ''other'' ''sub-3'' ''s1'' db2) ! 0 =
     sub_row1\<lparr>sst_transaction_signature := ''other'', sst_status := ''completed'',
              sst_verified_at := Some 2000, sst_subscription_id := Some ''sub-3''\<rparr> \<and>
   solana_transactions db1 = solana_transactions (credit_finalize 1000 sig1 ''p1'' db0) \<and>
   solana_subscription_transactions db2 =
     solana_subscription_transactions (subscription_finalize 1000 sig1 ''sub-2'' ''s1'' db0)"
proof -
  have 1: "solana_transactions db1 = [credit_row1]" "st_id credit_row1 = ''p1''"
    by (simp_all add: db1_def credit_row1_def credit_row0_def)
  have 2: "solana_subscription_transactions db2 = [sub_row1]" "sst_id sub_row1 = ''s1''"
    by (simp_all add: db2_def sub_row1_def sub_row0_def)
  have n: "now env0 = 1000" by (simp add: env0_def)
  from finalize_keyed_by_id [where d = db1 and t = 2000 and s = "''other''" and p = "''p1''"] 1
  have a: "solana_transactions (credit_finalize 2000 ''other'' ''p1'' db1) ! 0 =
     credit_row1\<lparr>st_transaction_signature := ''other'', st_status := ''completed'',
                 st_verified_at := Some 2000\<rparr>"
    by simp
  from finalize_keyed_by_id [where d = db2 and t = 2000 and s = "''other''" and p = "''s1''"
      and sid = "''sub-3''"] 2
  have b: "solana_subscription_transactions (subscription_finalize 2000 ''other'' ''sub-3'' ''s1'' db2) ! 0 =
     sub_row1\<lparr>sst_transaction_signature := ''other'', sst_status := ''completed'',
              sst_verified_at := Some 2000, sst_subscription_id := Some ''sub-3''\<rparr>"
    by simp
  from finalize_keyed_by_id [where cfg = cfg0 and e = env0 and d = db0 and p = "''p1''"
      and s = sig1 and u = "''u1''" and c = 50 and d' = db1] credit_run0 n
  have c: "solana_transactions db1 = solana_transactions (credit_finalize 1000 sig1 ''p1'' db0)"
    by simp
  from finalize_keyed_by_id [where cfg = cfg0 and e = env0 and d = db0 and p = "''s1''"
      and s = sig1 and u = "''u1''" and sid' = "''sub-2''" and d'' = db2] subscription_run0 n
  have d: "solana_subscription_transactions db2 =
     solana_subscription_transactions (subscription_finalize 1000 sig1 ''sub-2'' ''s1'' db0)"
    by simp
  from a b c d show ?thesis by (intro conjI)
qed

end
